theory Spec2Isabelle
  imports Complex_Main "HOL-Library.Word" "HOL-Library.Log_Nat"
begin

section \<open>The host handle API\<close>

text \<open>
  The conversion layer of \<^verbatim>\<open>webidl-napi-inl.h\<close> talks to the host only through
  handle-API calls (\<^verbatim>\<open>napi_*\<close>). The host is not part of the repository: its calls
  are modelled after their description in the Node-API reference, as far as this program
  depends on them. Each call returns a status. A function of the model returns a
  \<open>result\<close> and the state it leaves behind:
  \<^item> \<open>napi_ok x\<close>: the status \<^verbatim>\<open>napi_ok\<close>, with \<open>x\<close> the values written through the
    output parameters;
  \<^item> \<open>failure e\<close>: any other status; a handle-API call has then written no output;
  \<^item> \<open>undefined_behaviour\<close>: the C++ code has left the language (a read through a
    pointer to no object, an index past the end of a vector, a second \<^verbatim>\<open>delete\<close>); the
    state paired with it means nothing.
  A callback or member function that returns a value or nothing, and no status, is
  modelled the same way: \<open>napi_ok x\<close> is its returning \<open>x\<close>.
\<close>

datatype napi_error =
    napi_invalid_arg
  | napi_object_expected
  | napi_string_expected
  | napi_number_expected
  | napi_array_expected
  | napi_generic_failure
  | napi_pending_exception
  | napi_escape_called_twice
  | napi_handle_scope_mismatch

datatype 'a result = napi_ok 'a | failure napi_error | undefined_behaviour

datatype napi_valuetype =
    napi_undefined
  | napi_null
  | napi_boolean
  | napi_number
  | napi_string
  | napi_symbol
  | napi_object
  | napi_function
  | napi_external

text \<open>
  A host number is a double. A finite one is carried by the rational it denotes; the
  integer codecs only ever produce integral ones.
\<close>

datatype js_number = Finite rat | NaN | PosInfinity | NegInfinity

text \<open>
  Dynamic values. Objects, functions, symbols and externals have an identity (an address
  in the host heap), so equality of two \<open>js_value\<close>s is the host's referential identity.
  A string of the dynamic language is a sequence of UTF-16 code units, any sequence: a
  surrogate need not be paired.
\<close>

type_synonym js_string = "16 word list"

datatype js_value =
    JSUndefined
  | JSNull
  | JSBoolean bool
  | JSNumber js_number
  | JSString js_string
  | JSSymbol nat
  | JSObject nat
  | JSFunction nat
  | JSExternal nat

text \<open>A handle is a pointer: \<open>None\<close> is \<^verbatim>\<open>nullptr\<close>.\<close>

type_synonym napi_value = "js_value option"

datatype settlement = Unsettled | Fulfilled js_value | Rejected js_value

datatype js_object =
    JSArray "js_value list"
  | JSOrdinary
  | JSError js_value
  | JSPromise settlement

text \<open>
  The state of one host environment:
  \<^item> \<open>faults\<close>: what the host will report on its next calls. \<open>Some e\<close> makes the next
    call return the status \<open>e\<close> without any effect, \<open>None\<close> lets it run; once the list
    is used up every call runs. This is how a failure of an arbitrary handle-API call
    is expressed, and how many calls were made can be read off it.
  \<^item> \<open>heap\<close>: the objects, by address; \<open>next_id\<close> is the next fresh address, reference
    or deferred handle.
  \<^item> \<open>scopes\<close>: the open handle scopes, innermost first; the flag records that
    \<^verbatim>\<open>napi_escape_handle\<close> has been called on the scope.
  \<^item> \<open>wraps\<close>: the native pointer attached to an object by \<^verbatim>\<open>napi_wrap\<close>.
  \<^item> \<open>references\<close>: the live \<^verbatim>\<open>napi_ref\<close>s and the value each one holds.
  \<^item> \<open>deferreds\<close>: the live deferred handles and the promise object each one settles.
  \<^item> \<open>exception\<close>: the message of the pending exception, if one is pending.
  The record is extended further down by the native heap, so the calls are defined on
  every extension of it.
\<close>

record napi_env =
  faults :: "napi_error option list"
  heap :: "nat \<rightharpoonup> js_object"
  next_id :: nat
  scopes :: "bool list"
  wraps :: "nat \<rightharpoonup> nat"
  references :: "nat \<rightharpoonup> js_value"
  deferreds :: "nat \<rightharpoonup> nat"
  exception :: "string option"

type_synonym ('a, 's) call = "'s \<Rightarrow> 'a result \<times> 's"

type_synonym ('a, 'm) napi_call = "('a, 'm napi_env_scheme) call"

definition host :: "('a, 'm) napi_call \<Rightarrow> ('a, 'm) napi_call" where
  "host op env =
     (case faults env of
        [] \<Rightarrow> op env
      | None # fs \<Rightarrow> op (env\<lparr>faults := fs\<rparr>)
      | Some e # fs \<Rightarrow> (failure e, env\<lparr>faults := fs\<rparr>))"

text \<open>
  The calls that may run code of the dynamic language refuse to work while an exception
  is pending: they report \<open>napi_pending_exception\<close>.
\<close>

definition preamble :: "('a, 'm) napi_call \<Rightarrow> ('a, 'm) napi_call" where
  "preamble op =
     host (\<lambda>env. case exception env of
                   Some pending \<Rightarrow> (failure napi_pending_exception, env)
                 | None \<Rightarrow> op env)"

text \<open>
  Modelled from the spec: the macro \<^verbatim>\<open>STATUS_CALL\<close> is declared in
  \<^verbatim>\<open>webidl-napi.h\<close>, which is not among the sources. The spec has a handle-API failure
  "propagated immediately via a status code returned up the call chain (short-circuit)".
  The source agrees: \<^verbatim>\<open>IsConstructCall\<close>, \<^verbatim>\<open>PickSignature\<close> and \<^verbatim>\<open>SetRef\<close> use
  the macro with neither a \<^verbatim>\<open>status\<close> variable nor a \<^verbatim>\<open>fail\<close> label in scope, so the
  macro can only hold the status in a variable of its own and return it.
\<close>

definition STATUS_CALL :: "('a, 's) call \<Rightarrow> ('a \<Rightarrow> ('b, 's) call) \<Rightarrow> ('b, 's) call" where
  "STATUS_CALL call rest env =
     (case call env of
        (napi_ok x, env') \<Rightarrow> rest x env'
      | (failure status, env') \<Rightarrow> (failure status, env')
      | (undefined_behaviour, env') \<Rightarrow> (undefined_behaviour, env'))"

lemma STATUS_CALL_cong [fundef_cong]:
  assumes "call env = call' env'"
    and "\<And>x e. call' env' = (napi_ok x, e) \<Longrightarrow> rest x e = rest' x e"
  shows "STATUS_CALL call rest env = STATUS_CALL call' rest' env'"
  using assms by (auto simp: STATUS_CALL_def split: prod.splits result.splits)

text \<open>
  Modelled from the spec: the macros \<^verbatim>\<open>NAPI_CALL\<close> and \<^verbatim>\<open>NAPI_CALL_RETURN_VOID\<close>
  are declared in \<^verbatim>\<open>webidl-napi.h\<close>, which is not among the sources. The spec has a
  failure inside an accessor "surfaced to the caller via the host's exception mechanism,
  not returned as a status": the callback raises a host exception, unless one is pending
  already, and returns at once (\<^verbatim>\<open>nullptr\<close>, or nothing). \<open>ret_val\<close> is what it returns.
\<close>

fun error_message :: "napi_error \<Rightarrow> string" where
  "error_message napi_invalid_arg = ''Invalid argument''"
| "error_message napi_object_expected = ''An object was expected''"
| "error_message napi_string_expected = ''A string was expected''"
| "error_message napi_number_expected = ''A number was expected''"
| "error_message napi_array_expected = ''An array was expected''"
| "error_message napi_generic_failure = ''Unknown failure''"
| "error_message napi_pending_exception = ''An exception is pending''"
| "error_message napi_escape_called_twice = ''Invalid handle scope usage''"
| "error_message napi_handle_scope_mismatch = ''Invalid handle scope usage''"

definition throw_last_error :: "napi_error \<Rightarrow> 'm napi_env_scheme \<Rightarrow> 'm napi_env_scheme" where
  "throw_last_error e env =
     (case exception env of
        None \<Rightarrow> env\<lparr>exception := Some (error_message e)\<rparr>
      | Some pending \<Rightarrow> env)"

definition NAPI_CALL_BASE ::
  "('a, 'm napi_env_scheme) call \<Rightarrow> 'b \<Rightarrow> ('a \<Rightarrow> ('b, 'm napi_env_scheme) call) \<Rightarrow>
   ('b, 'm napi_env_scheme) call" where
  "NAPI_CALL_BASE the_call ret_val rest env =
     (case the_call env of
        (napi_ok x, env') \<Rightarrow> rest x env'
      | (failure status, env') \<Rightarrow> (napi_ok ret_val, throw_last_error status env')
      | (undefined_behaviour, env') \<Rightarrow> (undefined_behaviour, env'))"

definition NAPI_CALL ::
  "('a, 'm napi_env_scheme) call \<Rightarrow> ('a \<Rightarrow> (napi_value, 'm napi_env_scheme) call) \<Rightarrow>
   (napi_value, 'm napi_env_scheme) call" where
  "NAPI_CALL the_call rest = NAPI_CALL_BASE the_call None rest"

definition NAPI_CALL_RETURN_VOID ::
  "('a, 'm napi_env_scheme) call \<Rightarrow> ('a \<Rightarrow> (unit, 'm napi_env_scheme) call) \<Rightarrow>
   (unit, 'm napi_env_scheme) call" where
  "NAPI_CALL_RETURN_VOID the_call rest = NAPI_CALL_BASE the_call () rest"

lemma NAPI_CALL_BASE_cong [fundef_cong]:
  assumes "the_call env = the_call' env'" and "ret_val = ret_val'"
    and "\<And>x e. the_call' env' = (napi_ok x, e) \<Longrightarrow> rest x e = rest' x e"
  shows "NAPI_CALL_BASE the_call ret_val rest env = NAPI_CALL_BASE the_call' ret_val' rest' env'"
  using assms by (auto simp: NAPI_CALL_BASE_def split: prod.splits result.splits)

lemma NAPI_CALL_RETURN_VOID_cong [fundef_cong]:
  assumes "the_call env = the_call' env'"
    and "\<And>x e. the_call' env' = (napi_ok x, e) \<Longrightarrow> rest x e = rest' x e"
  shows "NAPI_CALL_RETURN_VOID the_call rest env = NAPI_CALL_RETURN_VOID the_call' rest' env'"
  using assms by (auto simp: NAPI_CALL_RETURN_VOID_def NAPI_CALL_BASE_def split: prod.splits result.splits)

subsection \<open>Type tags\<close>

fun valuetype :: "js_value \<Rightarrow> napi_valuetype" where
  "valuetype JSUndefined = napi_undefined"
| "valuetype JSNull = napi_null"
| "valuetype (JSBoolean b) = napi_boolean"
| "valuetype (JSNumber n) = napi_number"
| "valuetype (JSString s) = napi_string"
| "valuetype (JSSymbol a) = napi_symbol"
| "valuetype (JSObject a) = napi_object"
| "valuetype (JSFunction a) = napi_function"
| "valuetype (JSExternal a) = napi_external"

definition napi_typeof :: "napi_value \<Rightarrow> (napi_valuetype, 'm) napi_call" where
  "napi_typeof v =
     host (\<lambda>env. case v of
                   None \<Rightarrow> (failure napi_invalid_arg, env)
                 | Some x \<Rightarrow> (napi_ok (valuetype x), env))"

subsection \<open>Numbers\<close>

text \<open>
  Reading a number as an integer drops the fraction (towards zero); a number that is not
  finite reads as 0. The 32-bit getters keep the low 32 bits, the 64-bit getter stops at
  the ends of its range.
\<close>

definition truncate_rat :: "rat \<Rightarrow> int" where
  "truncate_rat q = (if 0 \<le> q then \<lfloor>q\<rfloor> else \<lceil>q\<rceil>)"

fun integer_value :: "js_number \<Rightarrow> int" where
  "integer_value (Finite q) = truncate_rat q"
| "integer_value NaN = 0"
| "integer_value PosInfinity = 0"
| "integer_value NegInfinity = 0"

text \<open>
  The double nearest to an integer (ties to even): below \<open>2 ^ 53\<close> in magnitude the
  integer itself, above it a multiple of the spacing of the doubles at that magnitude.
\<close>

definition round_to_double :: "int \<Rightarrow> int" where
  "round_to_double x =
     (let a = \<bar>x\<bar> in
      if a < 2 ^ 53 then x
      else let ulp = 2 ^ nat (bitlen a - 53); q = a div ulp; r = a mod ulp
           in sgn x * ulp * (if ulp < 2 * r \<or> (ulp = 2 * r \<and> odd q) then q + 1 else q))"

definition napi_create_uint32 :: "32 word \<Rightarrow> (napi_value, 'm) napi_call" where
  "napi_create_uint32 v = host (\<lambda>env. (napi_ok (Some (JSNumber (Finite (of_int (uint v))))), env))"

definition napi_create_int32 :: "32 word \<Rightarrow> (napi_value, 'm) napi_call" where
  "napi_create_int32 v = host (\<lambda>env. (napi_ok (Some (JSNumber (Finite (of_int (sint v))))), env))"

definition napi_create_int64 :: "64 word \<Rightarrow> (napi_value, 'm) napi_call" where
  "napi_create_int64 v =
     host (\<lambda>env. (napi_ok (Some (JSNumber (Finite (of_int (round_to_double (sint v)))))), env))"

definition napi_create_double :: "js_number \<Rightarrow> (napi_value, 'm) napi_call" where
  "napi_create_double v = host (\<lambda>env. (napi_ok (Some (JSNumber v)), env))"

definition get_number :: "napi_value \<Rightarrow> (js_number \<Rightarrow> 'a) \<Rightarrow> ('a, 'm) napi_call" where
  "get_number v read =
     host (\<lambda>env. case v of
                   None \<Rightarrow> (failure napi_invalid_arg, env)
                 | Some (JSNumber n) \<Rightarrow> (napi_ok (read n), env)
                 | Some other \<Rightarrow> (failure napi_number_expected, env))"

definition napi_get_value_uint32 :: "napi_value \<Rightarrow> (32 word, 'm) napi_call" where
  "napi_get_value_uint32 v = get_number v (\<lambda>n. word_of_int (integer_value n))"

definition napi_get_value_int32 :: "napi_value \<Rightarrow> (32 word, 'm) napi_call" where
  "napi_get_value_int32 v = get_number v (\<lambda>n. word_of_int (integer_value n))"

definition napi_get_value_int64 :: "napi_value \<Rightarrow> (64 word, 'm) napi_call" where
  "napi_get_value_int64 v =
     get_number v (\<lambda>n. word_of_int (max (- (2 ^ 63)) (min (2 ^ 63 - 1) (integer_value n))))"

definition napi_get_value_double :: "napi_value \<Rightarrow> (js_number, 'm) napi_call" where
  "napi_get_value_double v = get_number v (\<lambda>n. n)"

subsection \<open>Strings\<close>

text \<open>
  The host converts between its strings and UTF-8. Bytes are carried by their values.

  Decoding reads one character at a time: a byte below \<open>0x80\<close>, or a lead byte followed
  by the continuation bytes it asks for; the second byte of a sequence is bounded more
  tightly after the leads \<open>0xE0\<close>, \<open>0xED\<close>, \<open>0xF0\<close> and \<open>0xF4\<close>, which shuts out overlong
  forms, surrogates and code points beyond \<open>0x10FFFF\<close>. Where the bytes are not a
  character, the part read so far becomes one \<open>U+FFFD\<close> and decoding goes on at the byte
  that did not fit. A code point from \<open>0x10000\<close> on becomes a surrogate pair.
\<close>

definition continuation :: "nat \<Rightarrow> bool" where
  "continuation b = (0x80 \<le> b \<and> b \<le> 0xBF)"

definition second_lower :: "nat \<Rightarrow> nat" where
  "second_lower b = (if b = 0xE0 then 0xA0 else if b = 0xF0 then 0x90 else 0x80)"

definition second_upper :: "nat \<Rightarrow> nat" where
  "second_upper b = (if b = 0xED then 0x9F else if b = 0xF4 then 0x8F else 0xBF)"

definition units_of_code_point :: "nat \<Rightarrow> js_string" where
  "units_of_code_point cp =
     (if cp < 0x10000 then [of_nat cp]
      else [of_nat (0xD800 + (cp - 0x10000) div 0x400), of_nat (0xDC00 + (cp - 0x10000) mod 0x400)])"

definition replacement :: "16 word" where
  "replacement = 0xFFFD"

fun utf8_decode :: "nat list \<Rightarrow> js_string" where
  "utf8_decode [] = []"
| "utf8_decode (b # bs) =
     (if b < 0x80 then of_nat b # utf8_decode bs
      else if 0xC2 \<le> b \<and> b \<le> 0xDF then
        (case bs of
           [] \<Rightarrow> [replacement]
         | c # r1 \<Rightarrow>
             if continuation c
             then units_of_code_point ((b - 0xC0) * 0x40 + (c - 0x80)) @ utf8_decode r1
             else replacement # utf8_decode bs)
      else if 0xE0 \<le> b \<and> b \<le> 0xEF then
        (case bs of
           [] \<Rightarrow> [replacement]
         | c # r1 \<Rightarrow>
             if second_lower b \<le> c \<and> c \<le> second_upper b
             then (case r1 of
                     [] \<Rightarrow> [replacement]
                   | d # r2 \<Rightarrow>
                       if continuation d
                       then units_of_code_point
                              ((b - 0xE0) * 0x1000 + (c - 0x80) * 0x40 + (d - 0x80)) @ utf8_decode r2
                       else replacement # utf8_decode r1)
             else replacement # utf8_decode bs)
      else if 0xF0 \<le> b \<and> b \<le> 0xF4 then
        (case bs of
           [] \<Rightarrow> [replacement]
         | c # r1 \<Rightarrow>
             if second_lower b \<le> c \<and> c \<le> second_upper b
             then (case r1 of
                     [] \<Rightarrow> [replacement]
                   | d # r2 \<Rightarrow>
                       if continuation d
                       then (case r2 of
                               [] \<Rightarrow> [replacement]
                             | e # r3 \<Rightarrow>
                                 if continuation e
                                 then units_of_code_point
                                        ((b - 0xF0) * 0x40000 + (c - 0x80) * 0x1000 +
                                         (d - 0x80) * 0x40 + (e - 0x80)) @ utf8_decode r3
                                 else replacement # utf8_decode r2)
                       else replacement # utf8_decode r1)
             else replacement # utf8_decode bs)
      else replacement # utf8_decode bs)"

text \<open>
  Encoding writes a surrogate pair as the four bytes of its code point, an unpaired
  surrogate as the three bytes of \<open>U+FFFD\<close>, and any other code unit as the one to three
  bytes of its value. \<open>utf8_characters\<close> keeps the bytes of each character apart, since a
  buffer that is too small receives whole characters only.
\<close>

definition high_surrogate :: "16 word \<Rightarrow> bool" where
  "high_surrogate u = (0xD800 \<le> unat u \<and> unat u < 0xDC00)"

definition low_surrogate :: "16 word \<Rightarrow> bool" where
  "low_surrogate u = (0xDC00 \<le> unat u \<and> unat u < 0xE000)"

definition utf8_of_code_point :: "nat \<Rightarrow> nat list" where
  "utf8_of_code_point cp =
     (if cp < 0x80 then [cp]
      else if cp < 0x800 then [0xC0 + cp div 0x40, 0x80 + cp mod 0x40]
      else if cp < 0x10000 then
        [0xE0 + cp div 0x40 div 0x40, 0x80 + cp div 0x40 mod 0x40, 0x80 + cp mod 0x40]
      else [0xF0 + cp div 0x40 div 0x40 div 0x40, 0x80 + cp div 0x40 div 0x40 mod 0x40,
            0x80 + cp div 0x40 mod 0x40, 0x80 + cp mod 0x40])"

definition utf8_of_unit :: "16 word \<Rightarrow> nat list" where
  "utf8_of_unit u =
     utf8_of_code_point (if high_surrogate u \<or> low_surrogate u then 0xFFFD else unat u)"

fun utf8_characters :: "js_string \<Rightarrow> nat list list" where
  "utf8_characters [] = []"
| "utf8_characters [u] = [utf8_of_unit u]"
| "utf8_characters (u # v # us) =
     (if high_surrogate u \<and> low_surrogate v
      then utf8_of_code_point (0x10000 + (unat u - 0xD800) * 0x400 + (unat v - 0xDC00)) #
           utf8_characters us
      else utf8_of_unit u # utf8_characters (v # us))"

definition utf8_encode :: "js_string \<Rightarrow> nat list" where
  "utf8_encode s = concat (utf8_characters s)"

fun fitting :: "nat \<Rightarrow> nat list list \<Rightarrow> nat list" where
  "fitting room [] = []"
| "fitting room (c # cs) = (if length c \<le> room then c @ fitting (room - length c) cs else [])"

text \<open>
  \<^verbatim>\<open>napi_create_string_utf8(env, str, length, result)\<close>: \<open>str\<close> is the memory the
  pointer leads to, \<open>None\<close> for the length is \<^verbatim>\<open>NAPI_AUTO_LENGTH\<close>, which reads up to the
  first NUL byte.
\<close>

definition NUL :: char where
  "NUL = CHR 0x00"

definition napi_create_string_utf8 :: "string \<Rightarrow> nat option \<Rightarrow> (napi_value, 'm) napi_call" where
  "napi_create_string_utf8 str len =
     host (\<lambda>env. (napi_ok (Some (JSString (utf8_decode (map of_char
                      (case len of
                         None \<Rightarrow> takeWhile (\<lambda>c. c \<noteq> NUL) str
                       | Some n \<Rightarrow> take n str))))), env))"

text \<open>
  \<^verbatim>\<open>napi_get_value_string_utf8(env, value, buf, bufsize, result)\<close>: without a buffer it
  reports the length of the string's UTF-8 encoding in bytes; with one it copies the
  characters that fit before the terminating NUL, writes the NUL, and reports the number
  of bytes copied. The outputs are the buffer afterwards and the number reported.
\<close>

definition napi_get_value_string_utf8 ::
  "napi_value \<Rightarrow> string option \<Rightarrow> nat \<Rightarrow> (string option \<times> nat, 'm) napi_call" where
  "napi_get_value_string_utf8 v buf bufsize =
     host (\<lambda>env. case v of
                   None \<Rightarrow> (failure napi_invalid_arg, env)
                 | Some (JSString s) \<Rightarrow>
                     (case buf of
                        None \<Rightarrow> (napi_ok (None, length (utf8_encode s)), env)
                      | Some b \<Rightarrow>
                          if bufsize = 0 then (napi_ok (Some b, 0), env)
                          else let copied = map char_of (fitting (bufsize - 1) (utf8_characters s))
                               in (napi_ok (Some (copied @ [NUL] @ drop (length copied + 1) b),
                                            length copied), env))
                 | Some other \<Rightarrow> (failure napi_string_expected, env))"

subsection \<open>Handle scopes\<close>

text \<open>A scope handle is the number of scopes that were open when it was opened.\<close>

definition napi_open_handle_scope :: "(nat, 'm) napi_call" where
  "napi_open_handle_scope =
     host (\<lambda>env. (napi_ok (length (scopes env)), env\<lparr>scopes := False # scopes env\<rparr>))"

definition napi_close_handle_scope :: "nat \<Rightarrow> (unit, 'm) napi_call" where
  "napi_close_handle_scope scope =
     host (\<lambda>env. case scopes env of
                   [] \<Rightarrow> (failure napi_handle_scope_mismatch, env)
                 | s # ss \<Rightarrow> (napi_ok (), env\<lparr>scopes := ss\<rparr>))"

definition napi_open_escapable_handle_scope :: "(nat, 'm) napi_call" where
  "napi_open_escapable_handle_scope = napi_open_handle_scope"

definition napi_close_escapable_handle_scope :: "nat \<Rightarrow> (unit, 'm) napi_call" where
  "napi_close_escapable_handle_scope scope = napi_close_handle_scope scope"

definition napi_escape_handle :: "nat \<Rightarrow> napi_value \<Rightarrow> (napi_value, 'm) napi_call" where
  "napi_escape_handle scope escapee =
     host (\<lambda>env.
       if escapee = None \<or> length (scopes env) \<le> scope then (failure napi_invalid_arg, env)
       else let i = length (scopes env) - 1 - scope
            in if scopes env ! i then (failure napi_escape_called_twice, env)
               else (napi_ok escapee, env\<lparr>scopes := (scopes env)[i := True]\<rparr>))"

subsection \<open>Arrays\<close>

definition napi_create_array :: "(napi_value, 'm) napi_call" where
  "napi_create_array =
     host (\<lambda>env. (napi_ok (Some (JSObject (next_id env))),
                  env\<lparr>heap := (heap env)(next_id env \<mapsto> JSArray []),
                      next_id := next_id env + 1\<rparr>))"

text \<open>
  Storing at an index past the end extends the array, the gap reading as
  \<open>undefined\<close>. Only the elements of arrays are kept: a store into another object
  succeeds and is not recorded.
\<close>

definition set_nth :: "js_value list \<Rightarrow> nat \<Rightarrow> js_value \<Rightarrow> js_value list" where
  "set_nth xs i v =
     (if i < length xs then xs[i := v]
      else xs @ replicate (i - length xs) JSUndefined @ [v])"

definition napi_set_element :: "napi_value \<Rightarrow> nat \<Rightarrow> napi_value \<Rightarrow> (unit, 'm) napi_call" where
  "napi_set_element obj index v =
     preamble (\<lambda>env. case (obj, v) of
                   (Some (JSObject a), Some x) \<Rightarrow>
                     (case heap env a of
                        Some (JSArray xs) \<Rightarrow>
                          (napi_ok (), env\<lparr>heap := (heap env)(a \<mapsto> JSArray (set_nth xs index x))\<rparr>)
                      | Some other \<Rightarrow> (napi_ok (), env)
                      | None \<Rightarrow> (failure napi_object_expected, env))
                 | (Some other, Some x) \<Rightarrow> (failure napi_object_expected, env)
                 | (a, b) \<Rightarrow> (failure napi_invalid_arg, env))"

definition napi_get_array_length :: "napi_value \<Rightarrow> (nat, 'm) napi_call" where
  "napi_get_array_length v =
     host (\<lambda>env. case v of
                   None \<Rightarrow> (failure napi_invalid_arg, env)
                 | Some (JSObject a) \<Rightarrow>
                     (case heap env a of
                        Some (JSArray xs) \<Rightarrow> (napi_ok (length xs), env)
                      | other \<Rightarrow> (failure napi_array_expected, env))
                 | Some other \<Rightarrow> (failure napi_array_expected, env))"

definition napi_get_element :: "napi_value \<Rightarrow> nat \<Rightarrow> (napi_value, 'm) napi_call" where
  "napi_get_element obj index =
     preamble (\<lambda>env. case obj of
                   None \<Rightarrow> (failure napi_invalid_arg, env)
                 | Some (JSObject a) \<Rightarrow>
                     (case heap env a of
                        Some (JSArray xs) \<Rightarrow>
                          (napi_ok (Some (if index < length xs then xs ! index else JSUndefined)), env)
                      | Some other \<Rightarrow> (napi_ok (Some JSUndefined), env)
                      | None \<Rightarrow> (failure napi_object_expected, env))
                 | Some other \<Rightarrow> (failure napi_object_expected, env))"

subsection \<open>Callbacks and exceptions\<close>

text \<open>What the host hands to a callback: the arguments, the receiver, the new-target
  (\<^verbatim>\<open>nullptr\<close> unless the function was called as a constructor) and the data pointer
  the property was defined with.\<close>

record napi_callback_info =
  cb_args :: "napi_value list"
  cb_this :: napi_value
  cb_new_target :: napi_value
  cb_data :: "nat option"

definition napi_get_cb_info :: "napi_callback_info \<Rightarrow> (napi_callback_info, 'm) napi_call" where
  "napi_get_cb_info info = host (\<lambda>env. (napi_ok info, env))"

definition napi_get_new_target :: "napi_callback_info \<Rightarrow> (napi_value, 'm) napi_call" where
  "napi_get_new_target info = host (\<lambda>env. (napi_ok (cb_new_target info), env))"

definition napi_throw_error :: "string option \<Rightarrow> string \<Rightarrow> (unit, 'm) napi_call" where
  "napi_throw_error code msg = preamble (\<lambda>env. (napi_ok (), env\<lparr>exception := Some msg\<rparr>))"

definition napi_create_error :: "napi_value \<Rightarrow> napi_value \<Rightarrow> (napi_value, 'm) napi_call" where
  "napi_create_error code msg =
     host (\<lambda>env. case msg of
                   None \<Rightarrow> (failure napi_invalid_arg, env)
                 | Some (JSString s) \<Rightarrow>
                     (napi_ok (Some (JSObject (next_id env))),
                      env\<lparr>heap := (heap env)(next_id env \<mapsto> JSError (JSString s)),
                          next_id := next_id env + 1\<rparr>)
                 | Some other \<Rightarrow> (failure napi_string_expected, env))"

subsection \<open>Wrapping, references, deferred values\<close>

definition napi_wrap :: "napi_value \<Rightarrow> nat \<Rightarrow> (unit, 'm) napi_call" where
  "napi_wrap js_object native_object =
     preamble (\<lambda>env. case js_object of
                   None \<Rightarrow> (failure napi_invalid_arg, env)
                 | Some (JSObject a) \<Rightarrow>
                     (case wraps env a of
                        Some p \<Rightarrow> (failure napi_invalid_arg, env)
                      | None \<Rightarrow> (napi_ok (), env\<lparr>wraps := (wraps env)(a \<mapsto> native_object)\<rparr>))
                 | Some other \<Rightarrow> (failure napi_invalid_arg, env))"

definition napi_unwrap :: "napi_value \<Rightarrow> (nat, 'm) napi_call" where
  "napi_unwrap js_object =
     preamble (\<lambda>env. case js_object of
                   None \<Rightarrow> (failure napi_invalid_arg, env)
                 | Some (JSObject a) \<Rightarrow>
                     (case wraps env a of
                        Some p \<Rightarrow> (napi_ok p, env)
                      | None \<Rightarrow> (failure napi_invalid_arg, env))
                 | Some other \<Rightarrow> (failure napi_invalid_arg, env))"

text \<open>
  A \<^verbatim>\<open>napi_ref\<close> is a pointer, \<open>None\<close> being \<^verbatim>\<open>nullptr\<close>. A reference can be created
  for an object, a function or a symbol; for another value the host reports
  \<open>napi_invalid_arg\<close>. The references of this program are created with count 1, so what
  they hold stays alive until they are deleted. The host refuses a reference it does not
  know with \<open>napi_invalid_arg\<close>.
\<close>

definition referable :: "js_value \<Rightarrow> bool" where
  "referable x =
     (valuetype x = napi_object \<or> valuetype x = napi_function \<or> valuetype x = napi_symbol)"

type_synonym napi_ref = "nat option"

definition napi_create_reference :: "napi_value \<Rightarrow> nat \<Rightarrow> (napi_ref, 'm) napi_call" where
  "napi_create_reference v initial_refcount =
     host (\<lambda>env. case v of
                   None \<Rightarrow> (failure napi_invalid_arg, env)
                 | Some x \<Rightarrow>
                     if referable x
                     then (napi_ok (Some (next_id env)),
                           env\<lparr>references := (references env)(next_id env \<mapsto> x),
                               next_id := next_id env + 1\<rparr>)
                     else (failure napi_invalid_arg, env))"

definition napi_get_reference_value :: "napi_ref \<Rightarrow> (napi_value, 'm) napi_call" where
  "napi_get_reference_value ref =
     host (\<lambda>env. case ref of
                   None \<Rightarrow> (failure napi_invalid_arg, env)
                 | Some r \<Rightarrow>
                     (case references env r of
                        None \<Rightarrow> (failure napi_invalid_arg, env)
                      | Some x \<Rightarrow> (napi_ok (Some x), env)))"

definition napi_delete_reference :: "napi_ref \<Rightarrow> (unit, 'm) napi_call" where
  "napi_delete_reference ref =
     host (\<lambda>env. case ref of
                   None \<Rightarrow> (failure napi_invalid_arg, env)
                 | Some r \<Rightarrow>
                     (case references env r of
                        None \<Rightarrow> (failure napi_invalid_arg, env)
                      | Some x \<Rightarrow> (napi_ok (), env\<lparr>references := (references env)(r := None)\<rparr>)))"

type_synonym napi_deferred = "nat option"

definition napi_create_promise :: "(napi_deferred \<times> napi_value, 'm) napi_call" where
  "napi_create_promise =
     preamble (\<lambda>env. (napi_ok (Some (next_id env), Some (JSObject (next_id env))),
                  env\<lparr>heap := (heap env)(next_id env \<mapsto> JSPromise Unsettled),
                      deferreds := (deferreds env)(next_id env \<mapsto> next_id env),
                      next_id := next_id env + 1\<rparr>))"

definition conclude_deferred ::
  "napi_deferred \<Rightarrow> napi_value \<Rightarrow> (js_value \<Rightarrow> settlement) \<Rightarrow> (unit, 'm) napi_call" where
  "conclude_deferred deferred v settle =
     preamble (\<lambda>env. case (deferred, v) of
                   (Some d, Some x) \<Rightarrow>
                     (case deferreds env d of
                        None \<Rightarrow> (failure napi_invalid_arg, env)
                      | Some a \<Rightarrow>
                          (napi_ok (), env\<lparr>heap := (heap env)(a \<mapsto> JSPromise (settle x)),
                                           deferreds := (deferreds env)(d := None)\<rparr>))
                 | (a, b) \<Rightarrow> (failure napi_invalid_arg, env))"

definition napi_resolve_deferred :: "napi_deferred \<Rightarrow> napi_value \<Rightarrow> (unit, 'm) napi_call" where
  "napi_resolve_deferred deferred resolution = conclude_deferred deferred resolution Fulfilled"

definition napi_reject_deferred :: "napi_deferred \<Rightarrow> napi_value \<Rightarrow> (unit, 'm) napi_call" where
  "napi_reject_deferred deferred rejection = conclude_deferred deferred rejection Rejected"

section \<open>The value conversion framework\<close>

text \<open>
  \<^verbatim>\<open>Converter<T>\<close> is a pair of functions. \<open>ToJS\<close> takes the native value and yields the
  handle written to \<^verbatim>\<open>*result\<close>; \<open>ToNative\<close> takes the handle and what \<^verbatim>\<open>*result\<close>
  holds before the call, and yields what it holds afterwards.
\<close>

record ('a, 'm) Converter =
  ToJS :: "'a \<Rightarrow> (napi_value, 'm) napi_call"
  ToNative :: "napi_value \<Rightarrow> 'a \<Rightarrow> ('a, 'm) napi_call"

subsection \<open>Numbers\<close>

definition Converter_uint32_ToNative :: "napi_value \<Rightarrow> (32 word, 'm) napi_call" where
  "Converter_uint32_ToNative v = napi_get_value_uint32 v"

definition Converter_uint32_ToJS :: "32 word \<Rightarrow> (napi_value, 'm) napi_call" where
  "Converter_uint32_ToJS v = napi_create_uint32 v"

definition Converter_int32_ToNative :: "napi_value \<Rightarrow> (32 word, 'm) napi_call" where
  "Converter_int32_ToNative v = napi_get_value_int32 v"

definition Converter_int32_ToJS :: "32 word \<Rightarrow> (napi_value, 'm) napi_call" where
  "Converter_int32_ToJS v = napi_create_int32 v"

definition Converter_int64_ToNative :: "napi_value \<Rightarrow> (64 word, 'm) napi_call" where
  "Converter_int64_ToNative v = napi_get_value_int64 v"

definition Converter_int64_ToJS :: "64 word \<Rightarrow> (napi_value, 'm) napi_call" where
  "Converter_int64_ToJS v = napi_create_int64 v"

definition Converter_double_ToNative :: "napi_value \<Rightarrow> (js_number, 'm) napi_call" where
  "Converter_double_ToNative v = napi_get_value_double v"

definition Converter_double_ToJS :: "js_number \<Rightarrow> (napi_value, 'm) napi_call" where
  "Converter_double_ToJS v = napi_create_double v"

subsection \<open>Strings\<close>

text \<open>
  A \<^verbatim>\<open>DOMString\<close> is a \<^verbatim>\<open>std::string\<close>: its bytes, of which any may be NUL.
  \<^verbatim>\<open>resize(n)\<close> keeps the first \<open>n\<close> bytes and pads with NUL; \<^verbatim>\<open>c_str()\<close> is the
  memory of the bytes followed by one NUL.
\<close>

type_synonym DOMString = string

definition resize :: "nat \<Rightarrow> DOMString \<Rightarrow> DOMString" where
  "resize n s = take n s @ replicate (n - length s) NUL"

definition c_str :: "DOMString \<Rightarrow> string" where
  "c_str s = s @ [NUL]"

text \<open>
  The second call writes through \<^verbatim>\<open>result->c_str()\<close> into the bytes of the resized
  string, with the size of the string as the buffer size. \<open>result\<close> is the string before
  the call.
\<close>

definition Converter_DOMString_ToNative :: "napi_value \<Rightarrow> DOMString \<Rightarrow> (DOMString, 'm) napi_call" where
  "Converter_DOMString_ToNative str result =
     STATUS_CALL (napi_get_value_string_utf8 str None 0) (\<lambda>(nobuf, size).
       let resized = resize (size + 1) result in
       STATUS_CALL (napi_get_value_string_utf8 str (Some resized) (size + 1)) (\<lambda>(buf, size') env.
         (napi_ok (case buf of Some written \<Rightarrow> written | None \<Rightarrow> resized), env)))"

definition Converter_DOMString_ToJS :: "DOMString \<Rightarrow> (napi_value, 'm) napi_call" where
  "Converter_DOMString_ToJS str = napi_create_string_utf8 (c_str str) None"

subsection \<open>Opaque objects and \<^verbatim>\<open>unsigned long\<close>\<close>

text \<open>An \<^verbatim>\<open>object\<close> is the handle itself; the casts make no call.\<close>

type_synonym object = napi_value

definition Converter_object_ToNative :: "napi_value \<Rightarrow> (object, 'm) napi_call" where
  "Converter_object_ToNative val env = (napi_ok val, env)"

definition Converter_object_ToJS :: "object \<Rightarrow> (napi_value, 'm) napi_call" where
  "Converter_object_ToJS val env = (napi_ok val, env)"

text \<open>
  \<^verbatim>\<open>unsigned long\<close> is taken to be 64 bits wide, so both casts keep the bits. The
  output is written only when the status is \<^verbatim>\<open>napi_ok\<close>.
\<close>

definition Converter_unsigned_long_ToNative :: "napi_value \<Rightarrow> (64 word, 'm) napi_call" where
  "Converter_unsigned_long_ToNative val env =
     (case Converter_int64_ToNative val env of
        (napi_ok from_js, env') \<Rightarrow> (napi_ok (ucast from_js), env')
      | (failure status, env') \<Rightarrow> (failure status, env')
      | (undefined_behaviour, env') \<Rightarrow> (undefined_behaviour, env'))"

definition Converter_unsigned_long_ToJS :: "64 word \<Rightarrow> (napi_value, 'm) napi_call" where
  "Converter_unsigned_long_ToJS val = (let to_js = ucast val in Converter_int64_ToJS to_js)"

subsection \<open>The table\<close>

definition Converter_uint32 :: "(32 word, 'm) Converter" where
  "Converter_uint32 = \<lparr>ToJS = Converter_uint32_ToJS, ToNative = (\<lambda>v old. Converter_uint32_ToNative v)\<rparr>"

definition Converter_int32 :: "(32 word, 'm) Converter" where
  "Converter_int32 = \<lparr>ToJS = Converter_int32_ToJS, ToNative = (\<lambda>v old. Converter_int32_ToNative v)\<rparr>"

definition Converter_int64 :: "(64 word, 'm) Converter" where
  "Converter_int64 = \<lparr>ToJS = Converter_int64_ToJS, ToNative = (\<lambda>v old. Converter_int64_ToNative v)\<rparr>"

definition Converter_double :: "(js_number, 'm) Converter" where
  "Converter_double = \<lparr>ToJS = Converter_double_ToJS, ToNative = (\<lambda>v old. Converter_double_ToNative v)\<rparr>"

definition Converter_DOMString :: "(DOMString, 'm) Converter" where
  "Converter_DOMString = \<lparr>ToJS = Converter_DOMString_ToJS, ToNative = Converter_DOMString_ToNative\<rparr>"

definition Converter_object :: "(object, 'm) Converter" where
  "Converter_object = \<lparr>ToJS = Converter_object_ToJS, ToNative = (\<lambda>v old. Converter_object_ToNative v)\<rparr>"

definition Converter_unsigned_long :: "(64 word, 'm) Converter" where
  "Converter_unsigned_long =
     \<lparr>ToJS = Converter_unsigned_long_ToJS, ToNative = (\<lambda>v old. Converter_unsigned_long_ToNative v)\<rparr>"

section \<open>Container codecs\<close>

text \<open>
  \<^verbatim>\<open>details::ArrayToJS\<close>. The loop runs \<open>idx\<close> upwards from 0; the counter is an
  \<^verbatim>\<open>int\<close>, so the model is that of containers of fewer than \<open>2 ^ 31\<close> elements. The
  template parameter \<open>freeze\<close> is not used. With \<^verbatim>\<open>STATUS_CALL\<close> returning at once, the
  code after the label \<^verbatim>\<open>fail\<close> is never reached.
\<close>

function ArrayToJS_loop ::
  "('a, 'm) Converter \<Rightarrow> 'a list \<Rightarrow> napi_value \<Rightarrow> nat \<Rightarrow> (unit, 'm) napi_call" where
  "ArrayToJS_loop conv ar res idx env =
     (if idx < length ar
      then STATUS_CALL (ToJS conv (ar ! idx)) (\<lambda>member.
           STATUS_CALL (napi_set_element res idx member) (\<lambda>u.
           ArrayToJS_loop conv ar res (idx + 1))) env
      else (napi_ok (), env))"
  by pat_completeness auto
termination
  by (relation "measure (\<lambda>(conv, ar, res, idx, env). length ar - idx)") auto

declare ArrayToJS_loop.simps [simp del]

definition ArrayToJS :: "('a, 'm) Converter \<Rightarrow> bool \<Rightarrow> 'a list \<Rightarrow> (napi_value, 'm) napi_call" where
  "ArrayToJS conv freeze ar =
     STATUS_CALL napi_open_escapable_handle_scope (\<lambda>scope.
     STATUS_CALL napi_create_array (\<lambda>res.
     STATUS_CALL (ArrayToJS_loop conv ar res 0) (\<lambda>u.
     STATUS_CALL (napi_escape_handle scope res) (\<lambda>res.
     STATUS_CALL (napi_close_escapable_handle_scope scope) (\<lambda>u env.
     (napi_ok res, env))))))"

text \<open>
  \<^verbatim>\<open>details::ArrayToNative\<close>. \<open>sz\<close> is the source's \<^verbatim>\<open>size\<close>, and \<open>dflt\<close> the
  value-initialised \<^verbatim>\<open>T\<close> that \<^verbatim>\<open>res.resize(size)\<close> fills the container with.
\<close>

function ArrayToNative_loop ::
  "('a, 'm) Converter \<Rightarrow> napi_value \<Rightarrow> nat \<Rightarrow> 'a list \<Rightarrow> nat \<Rightarrow> ('a list, 'm) napi_call" where
  "ArrayToNative_loop conv ar sz res idx env =
     (if idx < sz
      then STATUS_CALL (napi_get_element ar idx) (\<lambda>member.
           STATUS_CALL (ToNative conv member (res ! idx)) (\<lambda>x.
           ArrayToNative_loop conv ar sz (res[idx := x]) (idx + 1))) env
      else (napi_ok res, env))"
  by pat_completeness auto
termination
  by (relation "measure (\<lambda>(conv, ar, sz, res, idx, env). sz - idx)") auto

declare ArrayToNative_loop.simps [simp del]

definition ArrayToNative :: "('a, 'm) Converter \<Rightarrow> 'a \<Rightarrow> napi_value \<Rightarrow> ('a list, 'm) napi_call" where
  "ArrayToNative conv dflt ar =
     STATUS_CALL napi_open_handle_scope (\<lambda>scope.
     STATUS_CALL (napi_get_array_length ar) (\<lambda>sz.
     STATUS_CALL (ArrayToNative_loop conv ar sz (replicate sz dflt) 0) (\<lambda>res.
     STATUS_CALL (napi_close_handle_scope scope) (\<lambda>u env.
     (napi_ok res, env)))))"

definition sequence_ToJS :: "('a, 'm) Converter \<Rightarrow> 'a list \<Rightarrow> (napi_value, 'm) napi_call" where
  "sequence_ToJS conv seq = ArrayToJS conv False seq"

definition sequence_ToNative :: "('a, 'm) Converter \<Rightarrow> 'a \<Rightarrow> napi_value \<Rightarrow> ('a list, 'm) napi_call" where
  "sequence_ToNative conv dflt val = ArrayToNative conv dflt val"

definition FrozenArray_ToJS :: "('a, 'm) Converter \<Rightarrow> 'a list \<Rightarrow> (napi_value, 'm) napi_call" where
  "FrozenArray_ToJS conv seq = ArrayToJS conv True seq"

definition FrozenArray_ToNative :: "('a, 'm) Converter \<Rightarrow> 'a \<Rightarrow> napi_value \<Rightarrow> ('a list, 'm) napi_call" where
  "FrozenArray_ToNative conv dflt val = ArrayToNative conv dflt val"

section \<open>The construct-call guard\<close>

definition IsConstructCall :: "napi_callback_info \<Rightarrow> string \<Rightarrow> (bool, 'm) napi_call" where
  "IsConstructCall info ifname =
     STATUS_CALL (napi_get_new_target info) (\<lambda>new_target.
       if new_target = None
       then STATUS_CALL
              (napi_throw_error None
                 (''Non-construct calls to the `'' @ ifname @ ''` constructor are not supported.''))
              (\<lambda>u env. (napi_ok False, env))
       else (\<lambda>env. (napi_ok True, env)))"

section \<open>Overload resolution\<close>

record webidl_sig =
  sig :: "napi_valuetype list"
  candidate :: bool

text \<open>
  The body of the inner loop of \<^verbatim>\<open>PickSignature\<close> for one signature: a signature that
  is still a candidate stops being one when it has no parameter at position \<open>idx\<close> or
  expects another type tag there.
\<close>

definition mark_sig :: "nat \<Rightarrow> napi_valuetype \<Rightarrow> webidl_sig \<Rightarrow> webidl_sig" where
  "mark_sig idx val_type s =
     (if candidate s
      then (if idx \<ge> length (sig s) \<or> sig s ! idx \<noteq> val_type
            then s\<lparr>candidate := False\<rparr> else s)
      else s)"

text \<open>
  The first loop, over the argument positions \<open>idx, idx + 1, ...\<close>; the list holds the
  arguments \<^verbatim>\<open>argv[idx], ..., argv[argc - 1]\<close> still to be looked at.
\<close>

fun PickSignature_scan ::
  "nat \<Rightarrow> napi_value list \<Rightarrow> webidl_sig list \<Rightarrow> (webidl_sig list, 'm) napi_call" where
  "PickSignature_scan idx [] sigs env = (napi_ok sigs, env)"
| "PickSignature_scan idx (arg # argv) sigs env =
     STATUS_CALL (napi_typeof arg)
       (\<lambda>val_type. PickSignature_scan (idx + 1) argv (map (mark_sig idx val_type) sigs)) env"

text \<open>The second loop: the first index \<open>idx, idx + 1, ...\<close> whose signature is a candidate.\<close>

fun first_candidate :: "nat \<Rightarrow> webidl_sig list \<Rightarrow> nat option" where
  "first_candidate idx [] = None"
| "first_candidate idx (s # sigs) =
     (if candidate s then Some idx else first_candidate (idx + 1) sigs)"

text \<open>
  \<^verbatim>\<open>*sig_idx = idx\<close> stores a \<^verbatim>\<open>size_t\<close> into an \<^verbatim>\<open>int\<close>: the low 32 bits, read as
  two's complement.
\<close>

definition int_of_size_t :: "nat \<Rightarrow> int" where
  "int_of_size_t n = sint (word_of_nat n :: 32 word)"

text \<open>
  \<^verbatim>\<open>PickSignature(env, argc, argv, sigs, sig_idx)\<close>. The list \<open>argv\<close> is the array of the
  \<^verbatim>\<open>argc\<close> arguments; \<open>sig_idx\<close> is what the caller stored in \<^verbatim>\<open>*sig_idx\<close> before
  the call, and the output is what it holds afterwards.
\<close>

definition PickSignature ::
  "napi_value list \<Rightarrow> webidl_sig list \<Rightarrow> int \<Rightarrow> (int, 'm) napi_call" where
  "PickSignature argv sigs sig_idx =
     STATUS_CALL (PickSignature_scan 0 argv sigs)
       (\<lambda>sigs' env.
          (napi_ok (case first_candidate 0 sigs' of
                      Some idx \<Rightarrow> int_of_size_t idx
                    | None \<Rightarrow> sig_idx), env))"

section \<open>The promise bridge\<close>

datatype State = kPending | kResolved | kRejected

text \<open>
  The members of \<^verbatim>\<open>Promise<T>\<close>. The member \<^verbatim>\<open>env\<close> is a pointer to the one
  environment there is, so all that matters of it is whether it is set: \<open>has_env\<close>.
\<close>

record 'a Promise =
  resolution :: 'a
  state :: State
  has_env :: bool
  deferred :: napi_deferred
  promise :: napi_value

text \<open>A call on the environment, made from a member function of a promise.\<close>

definition on_env :: "('a, 's) call \<Rightarrow> ('a, 'p \<times> 's) call" where
  "on_env f = (\<lambda>(p, env). case f env of (r, env') \<Rightarrow> (r, (p, env')))"

text \<open>\<^verbatim>\<open>Promise<T>::Conclude(napi_env candidate_env)\<close>; \<open>candidate_env\<close> says whether the
  argument is an environment rather than \<^verbatim>\<open>nullptr\<close>.\<close>

definition create_deferred :: "(unit, 'a Promise \<times> 'm napi_env_scheme) call" where
  "create_deferred = (\<lambda>(p, env).
     case napi_create_promise env of
       (napi_ok (d, pr), env') \<Rightarrow> (napi_ok (), (p\<lparr>deferred := d, promise := pr\<rparr>, env'))
     | (failure status, env') \<Rightarrow> (failure status, (p, env'))
     | (undefined_behaviour, env') \<Rightarrow> (undefined_behaviour, (p, env')))"

definition Conclude_env ::
  "('a, 'm) Converter \<Rightarrow> bool \<Rightarrow> (unit, 'a Promise \<times> 'm napi_env_scheme) call" where
  "Conclude_env conv candidate_env = (\<lambda>(p0, env0).
     let p1 = p0\<lparr>has_env := (if \<not> has_env p0 then candidate_env else has_env p0)\<rparr> in
     if \<not> has_env p1 then (napi_ok (), (p1, env0))
     else
       STATUS_CALL (\<lambda>(p, env). if deferred p = None then create_deferred (p, env)
                               else (napi_ok (), (p, env))) (\<lambda>u (p, env).
         if state p = kResolved then
           STATUS_CALL (on_env (ToJS conv (resolution p))) (\<lambda>js_resolution.
           STATUS_CALL (on_env (napi_resolve_deferred (deferred p) js_resolution)) (\<lambda>u s.
           (napi_ok (), s))) (p, env)
         else if state p = kRejected then
           STATUS_CALL (on_env (napi_create_string_utf8 ''Promise rejected'' None)) (\<lambda>message.
           STATUS_CALL (on_env (napi_create_error None message)) (\<lambda>error.
           STATUS_CALL (on_env (napi_reject_deferred (deferred p) error)) (\<lambda>u s.
           (napi_ok (), s)))) (p, env)
         else (napi_ok (), (p, env))) (p1, env0))"

text \<open>\<^verbatim>\<open>Promise<T>::Conclude()\<close>: nothing without an environment; a failure is thrown.\<close>

definition Conclude :: "('a, 'm) Converter \<Rightarrow> (unit, 'a Promise \<times> 'm napi_env_scheme) call" where
  "Conclude conv = (\<lambda>(p, env).
     if has_env p then
       (case Conclude_env conv True (p, env) of
          (napi_ok u, s) \<Rightarrow> (napi_ok (), s)
        | (failure status, (p', env')) \<Rightarrow> (napi_ok (), (p', throw_last_error status env'))
        | (undefined_behaviour, s) \<Rightarrow> (undefined_behaviour, s))
     else (napi_ok (), (p, env)))"

definition Resolve :: "('a, 'm) Converter \<Rightarrow> 'a \<Rightarrow> (unit, 'a Promise \<times> 'm napi_env_scheme) call" where
  "Resolve conv result = (\<lambda>(p, env).
     if state p \<noteq> kPending then (napi_ok (), (p, env))
     else Conclude conv (p\<lparr>resolution := result, state := kResolved\<rparr>, env))"

definition Reject :: "('a, 'm) Converter \<Rightarrow> (unit, 'a Promise \<times> 'm napi_env_scheme) call" where
  "Reject conv = (\<lambda>(p, env).
     if state p \<noteq> kPending then (napi_ok (), (p, env))
     else Conclude conv (p\<lparr>state := kRejected\<rparr>, env))"

section \<open>Object wrapping and the identity cache\<close>

text \<open>
  The native heap extends the state: the native objects (\<^verbatim>\<open>T\<close>) and the wrapping
  records (\<^verbatim>\<open>Wrapping<T>\<close>) by address, the property records of
  \<^verbatim>\<open>ExposedPartialProperty<T>\<close>, the next address \<^verbatim>\<open>new\<close> hands out, and the
  addresses of the native objects deleted so far, the latest first. A pointer is an
  address or \<^verbatim>\<open>nullptr\<close> (\<open>None\<close>).
\<close>

record Wrapping =
  native :: "nat option"
  refs :: "napi_ref list"

record ('t, 'p) world = napi_env +
  natives :: "nat \<rightharpoonup> 't"
  wrappings :: "nat \<rightharpoonup> Wrapping"
  properties :: "nat \<rightharpoonup> 'p"
  next_addr :: nat
  freed :: "nat list"

type_synonym ('a, 't, 'p) native_call = "('a, ('t, 'p) world) call"

type_synonym ('a, 't, 'p) native_Converter = "('a, ('t, 'p, unit) world_ext) Converter"

text \<open>An output parameter: \<open>None\<close> when the caller passes \<^verbatim>\<open>nullptr\<close> for it, else what
  the variable it points to holds.\<close>

type_synonym 'a out = "'a option"

definition Create :: "napi_value \<Rightarrow> nat option \<Rightarrow> nat \<Rightarrow> (unit, 't, 'p) native_call" where
  "Create js_rcv cc_rcv same_obj_count s =
     (let wrapping = next_addr s;
          s' = s\<lparr>wrappings := (wrappings s)(wrapping \<mapsto>
                    \<lparr>native = cc_rcv,
                     refs = (if same_obj_count > 0 then replicate same_obj_count None else [])\<rparr>),
                 next_addr := next_addr s + 1\<rparr>
      in napi_wrap js_rcv wrapping s')"

text \<open>
  \<^verbatim>\<open>Wrapping<T>::Retrieve(env, js_rcv, cc_rcv, ref_idx, ref, get_wrapping)\<close>. The outputs
  are \<^verbatim>\<open>*cc_rcv\<close>, \<^verbatim>\<open>*ref\<close> and \<^verbatim>\<open>*get_wrapping\<close> after the call.
\<close>

definition Retrieve ::
  "napi_value \<Rightarrow> int \<Rightarrow> napi_value out \<Rightarrow> nat option out \<Rightarrow>
   (nat option \<times> napi_value out \<times> nat option out, 't, 'p) native_call" where
  "Retrieve js_rcv ref_idx ref get_wrapping =
     STATUS_CALL (napi_unwrap js_rcv) (\<lambda>data s.
       case wrappings s data of
         None \<Rightarrow> (undefined_behaviour, s)
       | Some wrapping \<Rightarrow>
           STATUS_CALL
             (if 0 \<le> ref_idx \<and> nat ref_idx < length (refs wrapping) \<and>
                 refs wrapping ! nat ref_idx \<noteq> None
              then STATUS_CALL (napi_get_reference_value (refs wrapping ! nat ref_idx))
                     (\<lambda>ref_value s. (napi_ok (if ref \<noteq> None then Some ref_value else ref), s))
              else (\<lambda>s. (napi_ok ref, s)))
             (\<lambda>ref' s. (napi_ok (native wrapping, ref',
                                  if get_wrapping \<noteq> None then Some (Some data) else get_wrapping), s))
             s)"

text \<open>\<^verbatim>\<open>Wrapping<T>::SetRef\<close>, called on the record at \<open>this\<close>. \<^verbatim>\<open>refs[idx]\<close> is not
  checked against the size of the vector.\<close>

definition SetRef :: "nat \<Rightarrow> int \<Rightarrow> napi_value \<Rightarrow> (unit, 't, 'p) native_call" where
  "SetRef this idx same_obj =
     STATUS_CALL (napi_create_reference same_obj 1) (\<lambda>ref s.
       case wrappings s this of
         None \<Rightarrow> (undefined_behaviour, s)
       | Some wrapping \<Rightarrow>
           if 0 \<le> idx \<and> nat idx < length (refs wrapping)
           then (napi_ok (), s\<lparr>wrappings := (wrappings s)(this \<mapsto>
                                  wrapping\<lparr>refs := (refs wrapping)[nat idx := ref]\<rparr>)\<rparr>)
           else (undefined_behaviour, s))"

text \<open>
  \<^verbatim>\<open>Wrapping<T>::Destroy\<close>. \<^verbatim>\<open>NAPI_CALL_RETURN_VOID\<close> inside the loop leaves the
  function, so the loop takes what follows it as \<open>rest\<close>. Deleting an object that is not
  there (any more) is undefined; deleting \<^verbatim>\<open>nullptr\<close> does nothing.
\<close>

fun Destroy_refs :: "napi_ref list \<Rightarrow> (unit, 't, 'p) native_call \<Rightarrow> (unit, 't, 'p) native_call" where
  "Destroy_refs [] rest s = rest s"
| "Destroy_refs (ref # rs) rest s =
     (if ref \<noteq> None
      then NAPI_CALL_RETURN_VOID (napi_delete_reference ref) (\<lambda>u. Destroy_refs rs rest) s
      else Destroy_refs rs rest s)"

definition delete_native :: "nat option \<Rightarrow> (unit, 't, 'p) native_call" where
  "delete_native ptr s =
     (case ptr of
        None \<Rightarrow> (napi_ok (), s)
      | Some p \<Rightarrow>
          (case natives s p of
             None \<Rightarrow> (undefined_behaviour, s)
           | Some obj \<Rightarrow> (napi_ok (), s\<lparr>natives := (natives s)(p := None), freed := p # freed s\<rparr>)))"

definition delete_wrapping :: "nat \<Rightarrow> (unit, 't, 'p) native_call" where
  "delete_wrapping p s =
     (case wrappings s p of
        None \<Rightarrow> (undefined_behaviour, s)
      | Some w \<Rightarrow> (napi_ok (), s\<lparr>wrappings := (wrappings s)(p := None)\<rparr>))"

definition Destroy :: "nat \<Rightarrow> (unit, 't, 'p) native_call" where
  "Destroy data s =
     (case wrappings s data of
        None \<Rightarrow> (undefined_behaviour, s)
      | Some wrapping \<Rightarrow>
          Destroy_refs (refs wrapping)
            (STATUS_CALL (delete_native (native wrapping)) (\<lambda>u. delete_wrapping data)) s)"

text \<open>
  \<^verbatim>\<open>Wrapping<T>::InstanceGetter<FieldType, FieldName, sameIdx>\<close>. \<open>FieldName\<close> reads
  the member out of the native object.

  Modelled from the spec: the default arguments of \<^verbatim>\<open>Retrieve\<close> are declared in
  \<^verbatim>\<open>webidl-napi.h\<close>, which is not among the sources. The spec has the slot index
  optional, and the cached value returned only "if a same-object slot index is supplied":
  the three-argument call passes no slot (\<open>- 1\<close>) and \<^verbatim>\<open>nullptr\<close> for both outputs.
\<close>

definition read_native :: "nat option \<Rightarrow> ('t, 'p) world \<Rightarrow> 't option" where
  "read_native ptr s = (case ptr of None \<Rightarrow> None | Some p \<Rightarrow> natives s p)"

definition InstanceGetter ::
  "('f, 't, 'p) native_Converter \<Rightarrow> ('t \<Rightarrow> 'f) \<Rightarrow> int \<Rightarrow> napi_callback_info \<Rightarrow>
   (napi_value, 't, 'p) native_call" where
  "InstanceGetter conv FieldName sameIdx info =
     NAPI_CALL (napi_get_cb_info info) (\<lambda>cb.
     NAPI_CALL (if 0 \<le> sameIdx then Retrieve (cb_this cb) sameIdx (Some None) (Some None)
                else Retrieve (cb_this cb) (- 1) None None) (\<lambda>(cc_rcv, ref, get_wrapping).
       let result = (case ref of Some r \<Rightarrow> r | None \<Rightarrow> None);
           wrapping = (case get_wrapping of Some w \<Rightarrow> w | None \<Rightarrow> None)
       in if 0 \<le> sameIdx \<and> result \<noteq> None then (\<lambda>s. (napi_ok result, s))
          else (\<lambda>s.
            case read_native cc_rcv s of
              None \<Rightarrow> (undefined_behaviour, s)
            | Some obj \<Rightarrow>
                NAPI_CALL (ToJS conv (FieldName obj)) (\<lambda>result.
                  if 0 \<le> sameIdx
                  then (case wrapping of
                          None \<Rightarrow> (\<lambda>s. (undefined_behaviour, s))
                        | Some this \<Rightarrow> NAPI_CALL (SetRef this sameIdx result) (\<lambda>u s. (napi_ok result, s)))
                  else (\<lambda>s. (napi_ok result, s))) s)))"

section \<open>Exposed partial properties\<close>

text \<open>
  \<^verbatim>\<open>ExposedPartialProperty<T>::Getter\<close> and \<^verbatim>\<open>Setter\<close>. Both declare
  \<^verbatim>\<open>ExposedPartialProperty<T>* data = static_cast<ExposedPartialProperty<T>*>(data);\<close>
  so the pointer is initialised from itself, not from \<^verbatim>\<open>raw_data\<close>. What the
  variable then holds is not determined by the program; \<open>indeterminate\<close> stands for it.
  A property record is carried by its member \<^verbatim>\<open>value\<close>.
\<close>

definition ExposedPartialProperty_Getter ::
  "('p, 't, 'p) native_Converter \<Rightarrow> nat option \<Rightarrow> napi_callback_info \<Rightarrow>
   (napi_value, 't, 'p) native_call" where
  "ExposedPartialProperty_Getter conv indeterminate info =
     NAPI_CALL (napi_get_cb_info info) (\<lambda>cb.
       let raw_data = cb_data cb;
           data = indeterminate
       in (\<lambda>s. case (case data of None \<Rightarrow> None | Some p \<Rightarrow> properties s p) of
                 None \<Rightarrow> (undefined_behaviour, s)
               | Some v \<Rightarrow> NAPI_CALL (ToJS conv v) (\<lambda>result s. (napi_ok result, s)) s))"

definition ExposedPartialProperty_Setter ::
  "('p, 't, 'p) native_Converter \<Rightarrow> nat option \<Rightarrow> napi_callback_info \<Rightarrow>
   (napi_value, 't, 'p) native_call" where
  "ExposedPartialProperty_Setter conv indeterminate info =
     NAPI_CALL (napi_get_cb_info info) (\<lambda>cb.
       let raw_data = cb_data cb;
           new_value = (case cb_args cb of [] \<Rightarrow> Some JSUndefined | a # as \<Rightarrow> a);
           data = indeterminate
       in (\<lambda>s. case data of
                 None \<Rightarrow> (undefined_behaviour, s)
               | Some p \<Rightarrow>
                   (case properties s p of
                      None \<Rightarrow> (undefined_behaviour, s)
                    | Some v \<Rightarrow>
                        NAPI_CALL (ToNative conv new_value v) (\<lambda>x s.
                          (napi_ok None, s\<lparr>properties := (properties s)(p \<mapsto> x)\<rparr>)) s)))"

section \<open>Round trips\<close>

text \<open>
  The two compositions the round-trip law speaks of: \<^verbatim>\<open>ToNative(ToJS(x))\<close>, written
  into a variable that held \<open>old\<close>, and \<^verbatim>\<open>ToJS(ToNative(v))\<close>.
\<close>

definition native_round_trip :: "('a, 'm) Converter \<Rightarrow> 'a \<Rightarrow> 'a \<Rightarrow> ('a, 'm) napi_call" where
  "native_round_trip conv x old = STATUS_CALL (ToJS conv x) (\<lambda>v. ToNative conv v old)"

definition dynamic_round_trip ::
  "('a, 'm) Converter \<Rightarrow> napi_value \<Rightarrow> 'a \<Rightarrow> (napi_value, 'm) napi_call" where
  "dynamic_round_trip conv v old = STATUS_CALL (ToNative conv v old) (ToJS conv)"


section \<open>Sequences of settling calls\<close>

text \<open>What the producer of a promise can call on it, and a sequence of such calls, which
  ends early only when a call has left the language.\<close>

datatype 'a settling = Resolve_with 'a | Reject_it

fun settle ::
  "('a, 'm) Converter \<Rightarrow> 'a settling \<Rightarrow> (unit, 'a Promise \<times> 'm napi_env_scheme) call" where
  "settle conv (Resolve_with result) = Resolve conv result"
| "settle conv Reject_it = Reject conv"

fun settle_all ::
  "('a, 'm) Converter \<Rightarrow> 'a settling list \<Rightarrow> (unit, 'a Promise \<times> 'm napi_env_scheme) call" where
  "settle_all conv [] s = (napi_ok (), s)"
| "settle_all conv (c # cs) s = STATUS_CALL (settle conv c) (\<lambda>u. settle_all conv cs) s"

section \<open>Concrete states\<close>

text \<open>An environment with nothing in it and a host that reports no failure.\<close>

definition env0 :: napi_env where
  "env0 = \<lparr>faults = [], heap = Map.empty, next_id = 0, scopes = [], wraps = Map.empty,
           references = Map.empty, deferreds = Map.empty, exception = None\<rparr>"

text \<open>The signatures \<^verbatim>\<open>[[number], [string], [number, string]]\<close>.\<close>

definition sigs3 :: "webidl_sig list" where
  "sigs3 = [\<lparr>sig = [napi_number], candidate = True\<rparr>,
            \<lparr>sig = [napi_string], candidate = True\<rparr>,
            \<lparr>sig = [napi_number, napi_string], candidate = True\<rparr>]"

text \<open>The environment whose heap holds one array, at address 0.\<close>

definition env_with_array :: "js_value list \<Rightarrow> napi_env" where
  "env_with_array vs = env0\<lparr>heap := [0 \<mapsto> JSArray vs], next_id := 1\<rparr>"



text \<open>A promise of a \<^verbatim>\<open>uint32_t\<close> that is pending and has an environment, and one that
  was rejected before it had an environment.\<close>

definition pending_promise :: "(32 word) Promise" where
  "pending_promise =
     \<lparr>resolution = 0, state = kPending, has_env = True, deferred = None, promise = None\<rparr>"

definition rejected_promise :: "(32 word) Promise" where
  "rejected_promise =
     \<lparr>resolution = 0, state = kRejected, has_env = False, deferred = None, promise = None\<rparr>"

text \<open>A call of a constructor as a plain function, and one with \<^verbatim>\<open>new\<close>.\<close>

definition plain_call :: napi_callback_info where
  "plain_call = \<lparr>cb_args = [], cb_this = Some (JSObject 0), cb_new_target = None, cb_data = None\<rparr>"

definition construct_call :: napi_callback_info where
  "construct_call =
     \<lparr>cb_args = [], cb_this = Some (JSObject 0), cb_new_target = Some (JSFunction 1), cb_data = None\<rparr>"

text \<open>
  A native class with a member that holds an object, and a state with two instances of
  it: the objects at the addresses 10 and 11 are wrapped by the records at 1 and 3, which
  own the native objects at 2 and 4 and have two empty same-object slots each.
\<close>

record Widget =
  child :: object
  counter :: "32 word"

definition world0 :: "(Widget, 32 word) world" where
  "world0 =
     \<lparr>faults = [],
      heap = [10 \<mapsto> JSOrdinary, 11 \<mapsto> JSOrdinary, 20 \<mapsto> JSOrdinary, 21 \<mapsto> JSOrdinary],
      next_id = 30, scopes = [],
      wraps = [10 \<mapsto> 1, 11 \<mapsto> 3],
      references = Map.empty, deferreds = Map.empty, exception = None,
      natives = [2 \<mapsto> \<lparr>child = Some (JSObject 20), counter = 0\<rparr>,
                 4 \<mapsto> \<lparr>child = Some (JSObject 21), counter = 0\<rparr>],
      wrappings = [1 \<mapsto> \<lparr>native = Some 2, refs = [None, None]\<rparr>,
                   3 \<mapsto> \<lparr>native = Some 4, refs = [None, None]\<rparr>],
      properties = [5 \<mapsto> 7],
      next_addr = 6, freed = []\<rparr>"

text \<open>The same state after the first instance has cached the object at 20 in its slot 0,
  through the reference 30.\<close>

definition world1 :: "(Widget, 32 word) world" where
  "world1 = world0\<lparr>references := [30 \<mapsto> JSObject 20], next_id := 31,
                    wrappings := [3 \<mapsto> \<lparr>native = Some 4, refs = [None, None]\<rparr>,
                                  1 \<mapsto> \<lparr>native = Some 2, refs = [Some 30, None]\<rparr>]\<rparr>"


text \<open>A call of an accessor of an exposed partial property, with the pointer to the
  property record the property was defined with, and 3 as the argument.\<close>

definition property_call :: "nat \<Rightarrow> napi_callback_info" where
  "property_call p =
     \<lparr>cb_args = [Some (JSNumber (Finite 3))], cb_this = Some (JSObject 10),
      cb_new_target = None, cb_data = Some p\<rparr>"

section \<open>A host that reports no failure\<close>

lemma host_no_fault: "faults env = [] \<Longrightarrow> host op env = op env"
  by (simp add: host_def)

lemma preamble_ok:
  "faults env = [] \<Longrightarrow> exception env = None \<Longrightarrow> preamble op env = op env"
  by (simp add: preamble_def host_def)

lemma napi_typeof_ok:
  "faults env = [] \<Longrightarrow> napi_typeof (Some x) env = (napi_ok (valuetype x), env)"
  by (simp add: napi_typeof_def host_no_fault)








section \<open>Overload resolution picks the first matching signature\<close>

lemma PickSignature_scan_ok:
  "faults env = [] \<Longrightarrow> \<forall>v\<in>set argv. v \<noteq> None \<Longrightarrow>
   PickSignature_scan idx argv sigs env =
     (napi_ok (map (\<lambda>s. s\<lparr>candidate := candidate s \<and>
              (\<forall>i<length argv. idx + i < length (sig s) \<and>
                 sig s ! (idx + i) = valuetype (the (argv ! i)))\<rparr>) sigs), env)"
proof (induction argv arbitrary: idx sigs)
  case Nil
  then show ?case by (simp add: map_idI)
next
  case (Cons arg argv)
  from Cons.prems obtain x where x: "arg = Some x" by auto
  have "PickSignature_scan idx (arg # argv) sigs env =
        PickSignature_scan (Suc idx) argv (map (mark_sig idx (valuetype x)) sigs) env"
    using Cons.prems(1) by (simp add: x STATUS_CALL_def napi_typeof_ok)
  also have "\<dots> = (napi_ok (map (\<lambda>s. s\<lparr>candidate := candidate s \<and>
              (\<forall>i<length argv. Suc idx + i < length (sig s) \<and>
                 sig s ! (Suc idx + i) = valuetype (the (argv ! i)))\<rparr>)
                (map (mark_sig idx (valuetype x)) sigs)), env)"
    using Cons.prems by (intro Cons.IH) auto
  finally show ?case
    by (auto simp: x mark_sig_def All_less_Suc2)
qed

lemma first_candidate_None:
  "first_candidate idx sigs = None \<longleftrightarrow> (\<forall>k<length sigs. \<not> candidate (sigs ! k))"
  by (induction sigs arbitrary: idx) (auto simp: All_less_Suc2)

lemma first_candidate_Some:
  "k < length sigs \<Longrightarrow> candidate (sigs ! k) \<Longrightarrow> \<forall>j<k. \<not> candidate (sigs ! j) \<Longrightarrow>
   first_candidate idx sigs = Some (idx + k)"
proof (induction sigs arbitrary: idx k)
  case Nil
  then show ?case by simp
next
  case (Cons s sigs)
  show ?case
  proof (cases k)
    case 0
    with Cons.prems show ?thesis by simp
  next
    case (Suc k')
    with Cons.prems have "\<not> candidate s" by auto
    moreover have "first_candidate (idx + 1) sigs = Some (idx + 1 + k')"
      using Cons.prems Suc by (intro Cons.IH) auto
    ultimately show ?thesis using Suc by simp
  qed
qed

lemma int_of_size_t_small: "n < 2 ^ 31 \<Longrightarrow> int_of_size_t n = int n"
  unfolding int_of_size_t_def
  by (simp add: signed_of_nat signed_take_bit_int_eq_self)

text \<open>
  Claim C2. Let the host report no failure, the arguments be handles of values, and
  there be fewer than \<open>2 ^ 31\<close> signatures. Then the scan of \<^verbatim>\<open>PickSignature\<close> leaves
  the parameter lists alone and keeps a signature a candidate exactly when it was one
  and no argument position lies past its parameters or carries another type tag than
  the one it expects there. \<^verbatim>\<open>PickSignature\<close> returns \<^verbatim>\<open>napi_ok\<close>; \<^verbatim>\<open>*sig_idx\<close>
  then holds the index of the first signature, in the order given, that is still a
  candidate, and what it held before the call when no signature is.
\<close>

theorem PickSignature_first_matching:
  assumes "faults env = []" and "\<forall>v\<in>set argv. v \<noteq> None" and "length sigs < 2 ^ 31"
  shows "\<exists>sigs'. PickSignature_scan 0 argv sigs env = (napi_ok sigs', env) \<and>
      length sigs' = length sigs \<and>
      (\<forall>k<length sigs. sig (sigs' ! k) = sig (sigs ! k) \<and>
         (candidate (sigs' ! k) \<longleftrightarrow> candidate (sigs ! k) \<and>
            \<not> (\<exists>i<length argv. length (sig (sigs ! k)) \<le> i \<or>
                   sig (sigs ! k) ! i \<noteq> valuetype (the (argv ! i))))) \<and>
      (\<forall>k<length sigs. candidate (sigs' ! k) \<and> (\<forall>j<k. \<not> candidate (sigs' ! j)) \<longrightarrow>
         PickSignature argv sigs sig_idx env = (napi_ok (int k), env)) \<and>
      ((\<forall>k<length sigs. \<not> candidate (sigs' ! k)) \<longrightarrow>
         PickSignature argv sigs sig_idx env = (napi_ok sig_idx, env))"
proof -
  define sigs' where "sigs' = map (\<lambda>s. s\<lparr>candidate := candidate s \<and>
              (\<forall>i<length argv. 0 + i < length (sig s) \<and>
                 sig s ! (0 + i) = valuetype (the (argv ! i)))\<rparr>) sigs"
  have scan: "PickSignature_scan 0 argv sigs env = (napi_ok sigs', env)"
    unfolding sigs'_def using assms(1,2) by (rule PickSignature_scan_ok)
  have len: "length sigs' = length sigs"
    by (simp add: sigs'_def)
  have marks: "\<forall>k<length sigs. sig (sigs' ! k) = sig (sigs ! k) \<and>
         (candidate (sigs' ! k) \<longleftrightarrow> candidate (sigs ! k) \<and>
            \<not> (\<exists>i<length argv. length (sig (sigs ! k)) \<le> i \<or>
                   sig (sigs ! k) ! i \<noteq> valuetype (the (argv ! i))))"
    by (auto simp: sigs'_def)
  have pick: "PickSignature argv sigs sig_idx env =
      (napi_ok (case first_candidate 0 sigs' of
                  Some idx \<Rightarrow> int_of_size_t idx | None \<Rightarrow> sig_idx), env)"
    by (simp add: PickSignature_def STATUS_CALL_def scan)
  have found: "PickSignature argv sigs sig_idx env = (napi_ok (int k), env)"
    if "k < length sigs" "candidate (sigs' ! k)" "\<forall>j<k. \<not> candidate (sigs' ! j)" for k
  proof -
    have "first_candidate 0 sigs' = Some (0 + k)"
      using that len by (intro first_candidate_Some) auto
    moreover have "int_of_size_t k = int k"
      using that(1) assms(3) by (intro int_of_size_t_small) simp
    ultimately show ?thesis by (simp add: pick)
  qed
  have none: "PickSignature argv sigs sig_idx env = (napi_ok sig_idx, env)"
    if "\<forall>k<length sigs. \<not> candidate (sigs' ! k)"
  proof -
    have "first_candidate 0 sigs' = None"
      using that len by (simp add: first_candidate_None)
    then show ?thesis by (simp add: pick)
  qed
  from scan len marks found none show ?thesis by blast
qed

text \<open>
  The theorem at the signatures \<^verbatim>\<open>[[number], [string], [number, string]]\<close>: the
  arguments \<^verbatim>\<open>[number]\<close> leave the first and the third signature candidates and select
  the earlier one, index 0; the arguments
  \<^verbatim>\<open>[number, string]\<close> select index 2; the arguments \<^verbatim>\<open>[boolean]\<close> select none, and a
  \<open>- 1\<close> stored by the caller is still there.
\<close>

theorem PickSignature_first_matching_witness:
  "PickSignature [Some (JSNumber (Finite 7))] sigs3 (- 1) env0 = (napi_ok 0, env0) \<and>
   PickSignature [Some (JSNumber (Finite 7)), Some (JSString [0x61])] sigs3 (- 1) env0 =
     (napi_ok 2, env0) \<and>
   PickSignature [Some (JSBoolean True)] sigs3 (- 1) env0 = (napi_ok (- 1), env0)"
proof -
  have f: "faults env0 = []" and l: "length sigs3 < 2 ^ 31"
    by (simp_all add: env0_def sigs3_def)
  note ev = STATUS_CALL_def napi_typeof_ok [OF f] mark_sig_def sigs3_def
  have a1: "\<forall>v\<in>set [Some (JSNumber (Finite 7))]. v \<noteq> None" by simp
  have a2: "\<forall>v\<in>set [Some (JSNumber (Finite 7)), Some (JSString [0x61])]. v \<noteq> None" by simp
  have a3: "\<forall>v\<in>set [Some (JSBoolean True)]. v \<noteq> None" by simp
  have s1: "PickSignature_scan 0 [Some (JSNumber (Finite 7))] sigs3 env0 =
     (napi_ok [\<lparr>sig = [napi_number], candidate = True\<rparr>,
               \<lparr>sig = [napi_string], candidate = False\<rparr>,
               \<lparr>sig = [napi_number, napi_string], candidate = True\<rparr>], env0)"
    by (simp add: ev)
  have s2: "PickSignature_scan 0 [Some (JSNumber (Finite 7)), Some (JSString [0x61])] sigs3 env0 =
     (napi_ok [\<lparr>sig = [napi_number], candidate = False\<rparr>,
               \<lparr>sig = [napi_string], candidate = False\<rparr>,
               \<lparr>sig = [napi_number, napi_string], candidate = True\<rparr>], env0)"
    by (simp add: ev)
  have s3: "PickSignature_scan 0 [Some (JSBoolean True)] sigs3 env0 =
     (napi_ok [\<lparr>sig = [napi_number], candidate = False\<rparr>,
               \<lparr>sig = [napi_string], candidate = False\<rparr>,
               \<lparr>sig = [napi_number, napi_string], candidate = False\<rparr>], env0)"
    by (simp add: ev)
  have three: "length sigs3 = 3" by (simp add: sigs3_def)
  have r1: "PickSignature [Some (JSNumber (Finite 7))] sigs3 (- 1) env0 = (napi_ok 0, env0)"
    using PickSignature_first_matching [OF f a1 l, of "- 1"] s1 three
    by (auto simp: less_Suc_eq numeral_3_eq_3)
  have r2: "PickSignature [Some (JSNumber (Finite 7)), Some (JSString [0x61])] sigs3 (- 1) env0 =
      (napi_ok 2, env0)"
    using PickSignature_first_matching [OF f a2 l, of "- 1"] s2 three
    by (auto simp: less_Suc_eq numeral_3_eq_3)
  have r3: "PickSignature [Some (JSBoolean True)] sigs3 (- 1) env0 = (napi_ok (- 1), env0)"
    using PickSignature_first_matching [OF f a3 l, of "- 1"] s3 three
    by (auto simp: less_Suc_eq numeral_3_eq_3)
  from r1 r2 r3 show ?thesis by simp
qed

section \<open>Round trips of the primitive codecs\<close>

lemma truncate_rat_of_int [simp]: "truncate_rat (of_int n) = n"
  by (simp add: truncate_rat_def)

lemma truncate_rat_unsigned [simp]: "truncate_rat (unsigned w) = uint w"
  using truncate_rat_of_int [of "uint w"] by (simp del: truncate_rat_of_int)

lemma truncate_rat_signed [simp]: "truncate_rat (signed w) = sint w"
  using truncate_rat_of_int [of "sint w"] by (simp del: truncate_rat_of_int)

lemma truncate_rat_numeral [simp]: "truncate_rat (numeral k) = numeral k"
  using truncate_rat_of_int [of "numeral k"] by (simp del: truncate_rat_of_int)

lemma takeWhile_c_str: "takeWhile (\<lambda>c. c \<noteq> NUL) (c_str s) = takeWhile (\<lambda>c. c \<noteq> NUL) s"
  by (induction s) (simp_all add: c_str_def)




lemmas number_codec_defs =
  Converter_uint32_def Converter_uint32_ToJS_def Converter_uint32_ToNative_def
  Converter_int32_def Converter_int32_ToJS_def Converter_int32_ToNative_def
  Converter_int64_def Converter_int64_ToJS_def Converter_int64_ToNative_def
  Converter_double_def Converter_double_ToJS_def Converter_double_ToNative_def
  Converter_unsigned_long_def Converter_unsigned_long_ToJS_def Converter_unsigned_long_ToNative_def
  napi_create_uint32_def napi_get_value_uint32_def napi_create_int32_def napi_get_value_int32_def
  napi_create_int64_def napi_get_value_int64_def napi_create_double_def napi_get_value_double_def
  get_number_def







subsection \<open>The host's UTF-8 conversion returns a well-formed string\<close>
















lemma fitting_all: "length (concat cs) \<le> room \<Longrightarrow> fitting room cs = concat cs"
  by (induction cs arbitrary: room) simp_all



subsection \<open>\<^verbatim>\<open>DOMString\<close>\<close>

lemma DOMString_ToNative_ok:
  "faults env = [] \<Longrightarrow>
   Converter_DOMString_ToNative (Some (JSString s)) old env =
     (napi_ok (map char_of (utf8_encode s) @ [NUL]), env)"
  by (simp add: Converter_DOMString_ToNative_def napi_get_value_string_utf8_def host_no_fault
      STATUS_CALL_def resize_def utf8_encode_def fitting_all)

lemma DOMString_ToJS_ok:
  "faults env = [] \<Longrightarrow>
   Converter_DOMString_ToJS str env =
     (napi_ok (Some (JSString (utf8_decode (map of_char (takeWhile (\<lambda>c. c \<noteq> NUL) str))))), env)"
  by (simp add: Converter_DOMString_ToJS_def napi_create_string_utf8_def host_no_fault
      takeWhile_c_str)













text \<open>
  The native round trip of a \<^verbatim>\<open>DOMString\<close>: the bytes up to the first NUL are decoded,
  the string is encoded again, and the NUL the buffer has room for stays in the string.
  So \<^verbatim>\<open>"abc"\<close> comes back as the four bytes of \<^verbatim>\<open>"abc\0"\<close>, and the byte \<open>0xFF\<close>, which
  is not UTF-8, as the three bytes of \<open>U+FFFD\<close> and a NUL.
\<close>

lemma DOMString_native_round_trip:
  assumes "faults env = []"
  shows "native_round_trip Converter_DOMString str old env =
           (napi_ok (map char_of (utf8_encode (utf8_decode (map of_char
                       (takeWhile (\<lambda>c. c \<noteq> NUL) str)))) @ [NUL]), env)"
  using assms
  by (simp add: native_round_trip_def Converter_DOMString_def STATUS_CALL_def
      DOMString_ToJS_ok DOMString_ToNative_ok)

lemma DOMString_abc:
  "native_round_trip Converter_DOMString ''abc'' [] env0 = (napi_ok (''abc'' @ [NUL]), env0) \<and>
   native_round_trip Converter_DOMString [CHR 0xFF] [] env0 =
     (napi_ok [CHR 0xEF, CHR 0xBF, CHR 0xBD, NUL], env0)"
  using DOMString_native_round_trip [of env0 "''abc''" "[]"]
    DOMString_native_round_trip [of env0 "[CHR 0xFF]" "[]"]
  by (simp add: env0_def NUL_def utf8_encode_def utf8_of_unit_def utf8_of_code_point_def
      high_surrogate_def low_surrogate_def replacement_def char_of_eq_iff)

text \<open>
  The dynamic round trip of a string with an unpaired surrogate, or with the character
  \<open>U+0000\<close>, does not return the string: the surrogate comes back as \<open>U+FFFD\<close>, and the
  string ends before \<open>U+0000\<close>.
\<close>

lemma DOMString_ill_formed:
  "dynamic_round_trip Converter_DOMString (Some (JSString [0xD800])) [] env0 =
     (napi_ok (Some (JSString [0xFFFD])), env0) \<and>
   dynamic_round_trip Converter_DOMString (Some (JSString [0x61, 0, 0x62])) [] env0 =
     (napi_ok (Some (JSString [0x61])), env0)"
  by (simp add: dynamic_round_trip_def Converter_DOMString_def STATUS_CALL_def env0_def
      DOMString_ToJS_ok DOMString_ToNative_ok NUL_def utf8_encode_def utf8_of_unit_def
      utf8_of_code_point_def high_surrogate_def low_surrogate_def replacement_def
      second_lower_def second_upper_def continuation_def units_of_code_point_def char_of_eq_iff)
section \<open>Round trips of the container codecs\<close>










text \<open>
  The order in which the elements are converted shows when the host fails a call on the
  way: the sixth call is the store of the second element, and the array then holds the
  first element only.
\<close>

lemma ArrayToJS_ascending:
  "ArrayToJS Converter_uint32 False [3, 1, 2]
       (env0\<lparr>faults := [None, None, None, None, None, Some napi_generic_failure]\<rparr>) =
     (failure napi_generic_failure,
      env0\<lparr>heap := [0 \<mapsto> JSArray [JSNumber (Finite 3)]], next_id := 1, scopes := [False]\<rparr>)"
  by (simp add: ArrayToJS_def ArrayToJS_loop.simps STATUS_CALL_def env0_def host_def preamble_def
      number_codec_defs napi_open_handle_scope_def napi_open_escapable_handle_scope_def
      napi_create_array_def napi_set_element_def set_nth_def)

section \<open>A failing container conversion\<close>

text \<open>
  Claim C9 asks for the handle scope to be closed when a conversion fails. The code
  returns the status and writes no result, but the call that closes the scope stands
  after the label \<^verbatim>\<open>fail\<close>, which \<^verbatim>\<open>STATUS_CALL\<close> does not jump to. Converting the
  dynamic array \<^verbatim>\<open>["x"]\<close> to a \<^verbatim>\<open>sequence<uint32_t>\<close> fails at the element and leaves the
  scope it opened open; so does converting a \<^verbatim>\<open>sequence<object>\<close> that holds a null
  handle to a dynamic array, which also leaves the array it created behind.
\<close>

theorem container_failure_leaves_scope_open:
  "scopes (env_with_array [JSString [0x78]]) = [] \<and>
   ArrayToNative Converter_uint32 0 (Some (JSObject 0)) (env_with_array [JSString [0x78]]) =
     (failure napi_number_expected, (env_with_array [JSString [0x78]])\<lparr>scopes := [False]\<rparr>) \<and>
   scopes env0 = [] \<and>
   ArrayToJS Converter_object False [None] env0 =
     (failure napi_invalid_arg, env0\<lparr>heap := [0 \<mapsto> JSArray []], next_id := 1, scopes := [False]\<rparr>)"
  by (simp add: ArrayToNative_def ArrayToJS_def ArrayToNative_loop.simps ArrayToJS_loop.simps
      STATUS_CALL_def env_with_array_def env0_def host_def preamble_def number_codec_defs
      Converter_object_def Converter_object_ToJS_def
      napi_open_handle_scope_def napi_open_escapable_handle_scope_def napi_get_array_length_def
      napi_get_element_def napi_create_array_def napi_set_element_def)

section \<open>The first settling call on a promise is final\<close>

lemma create_deferred_keeps:
  "create_deferred (p, env) = (r, (p', env')) \<Longrightarrow>
   state p' = state p \<and> resolution p' = resolution p \<and> has_env p' = has_env p"
  by (auto simp: create_deferred_def split: prod.splits result.splits)

lemma on_env_keeps: "on_env f (p, env) = (r, (p', env')) \<Longrightarrow> p' = p"
  by (auto simp: on_env_def split: prod.splits)

lemma Conclude_env_keeps:
  assumes "Conclude_env conv candidate_env (p, env) = (r, (p', env'))"
  shows "state p' = state p \<and> resolution p' = resolution p"
  using assms
  by (auto simp: Conclude_env_def Let_def STATUS_CALL_def
      split: prod.splits result.splits if_splits dest!: create_deferred_keeps on_env_keeps)


lemma Conclude_keeps:
  assumes "Conclude conv (p, env) = (r, (p', env'))"
  shows "state p' = state p \<and> resolution p' = resolution p"
  using assms
  by (auto simp: Conclude_def split: prod.splits result.splits if_splits
      dest!: Conclude_env_keeps)

lemma Conclude_returns:
  "Conclude conv s = (r, s') \<Longrightarrow> r = napi_ok () \<or> r = undefined_behaviour"
  by (cases s) (auto simp: Conclude_def split: prod.splits result.splits if_splits)

lemma settle_not_pending:
  assumes "settle conv c (p, env) = (napi_ok u, (p', env'))"
  shows "state p' \<noteq> kPending"
proof (cases "state p = kPending")
  case False
  with assms show ?thesis
    by (cases c) (auto simp: Resolve_def Reject_def)
next
  case True
  show ?thesis
  proof (cases c)
    case (Resolve_with result)
    with assms True
    have "Conclude conv (p\<lparr>resolution := result, state := kResolved\<rparr>, env) = (napi_ok u, (p', env'))"
      by (simp add: Resolve_def)
    from Conclude_keeps [OF this] show ?thesis by simp
  next
    case Reject_it
    with assms True
    have "Conclude conv (p\<lparr>state := kRejected\<rparr>, env) = (napi_ok u, (p', env'))"
      by (simp add: Reject_def)
    from Conclude_keeps [OF this] show ?thesis by simp
  qed
qed

lemma settle_returns:
  "settle conv c s = (r, s') \<Longrightarrow> r = napi_ok () \<or> r = undefined_behaviour"
  by (cases s; cases c) (auto simp: Resolve_def Reject_def dest: Conclude_returns split: if_splits)

lemma settle_settled:
  "state p \<noteq> kPending \<Longrightarrow> settle conv c (p, env) = (napi_ok (), (p, env))"
  by (cases c) (simp_all add: Resolve_def Reject_def)

lemma settle_all_settled:
  "state p \<noteq> kPending \<Longrightarrow> settle_all conv cs (p, env) = (napi_ok (), (p, env))"
  by (induction cs) (simp_all add: STATUS_CALL_def settle_settled)

text \<open>
  Claim C5. On a promise that is not pending, \<^verbatim>\<open>Resolve\<close> and \<^verbatim>\<open>Reject\<close>, and so
  every sequence of them, return without changing anything: the members of the promise
  (state, resolution, deferred and promise handles) and the environment are what they
  were. And whatever the promise, a sequence of calls leaves what its first call leaves:
  the calls after the first change nothing.
\<close>

theorem first_settling_call_is_final:
  "(state p \<noteq> kPending \<longrightarrow>
      Resolve conv result (p, env) = (napi_ok (), (p, env)) \<and>
      Reject conv (p, env) = (napi_ok (), (p, env)) \<and>
      settle_all conv cs (p, env) = (napi_ok (), (p, env))) \<and>
   settle_all conv (c # cs) (p, env) = settle conv c (p, env)"
proof -
  have "settle_all conv (c # cs) (p, env) = settle conv c (p, env)"
  proof -
    obtain r p' env' where first: "settle conv c (p, env) = (r, (p', env'))"
      by (metis surj_pair)
    from settle_returns [OF first] show ?thesis
    proof
      assume r: "r = napi_ok ()"
      with first have "state p' \<noteq> kPending"
        using settle_not_pending by metis
      then show ?thesis
        using first r by (simp add: STATUS_CALL_def settle_all_settled)
    next
      assume "r = undefined_behaviour"
      with first show ?thesis by (simp add: STATUS_CALL_def)
    qed
  qed
  then show ?thesis
    using settle_all_settled [of p conv cs env]
    by (simp add: Resolve_def Reject_def)
qed


theorem first_settling_call_is_final_witness:
  "Resolve Converter_uint32 5 (rejected_promise, env0) = (napi_ok (), (rejected_promise, env0)) \<and>
   Reject Converter_uint32 (rejected_promise, env0) = (napi_ok (), (rejected_promise, env0)) \<and>
   settle_all Converter_uint32 [Resolve_with 5, Reject_it] (rejected_promise, env0) =
     (napi_ok (), (rejected_promise, env0)) \<and>
   settle_all Converter_uint32 [Reject_it, Resolve_with 5, Reject_it] (pending_promise, env0) =
     settle Converter_uint32 Reject_it (pending_promise, env0)"
proof -
  have "state rejected_promise \<noteq> kPending"
    by (simp add: rejected_promise_def)
  then show ?thesis
    using first_settling_call_is_final [of rejected_promise Converter_uint32 5 env0
        "[Resolve_with 5, Reject_it]" Reject_it]
      first_settling_call_is_final [of pending_promise Converter_uint32 5 env0
        "[Resolve_with 5, Reject_it]" Reject_it]
    by simp
qed

text \<open>What that first call leaves, when it is a \<^verbatim>\<open>Reject\<close> on a pending promise with an
  environment: a rejected promise, whose deferred value has been created and rejected
  with an error object.\<close>

lemma Reject_pending_promise:
  "settle_all Converter_uint32 [Reject_it, Resolve_with 5, Reject_it] (pending_promise, env0) =
     (napi_ok (),
      (pending_promise\<lparr>state := kRejected, deferred := Some 0, promise := Some (JSObject 0)\<rparr>,
       env0\<lparr>heap := [1 \<mapsto> JSError (JSString (utf8_decode (map of_char ''Promise rejected''))),
                       0 \<mapsto> JSPromise (Rejected (JSObject 1))],
            next_id := 2\<rparr>))"
  by (simp add: Reject_def Resolve_def Conclude_def Conclude_env_def create_deferred_def
      STATUS_CALL_def pending_promise_def env0_def on_env_def host_def preamble_def NUL_def
      napi_create_promise_def napi_create_string_utf8_def napi_create_error_def
      napi_reject_deferred_def conclude_deferred_def)

section \<open>The construct-call guard rejects plain calls\<close>

lemma napi_get_new_target_cases:
  "napi_get_new_target info env = (r, env') \<Longrightarrow>
   r = napi_ok (cb_new_target info) \<or> (\<exists>e. r = failure e)"
  by (auto simp: napi_get_new_target_def host_def split: list.splits option.splits)

lemma napi_throw_error_cases:
  "napi_throw_error code msg env = (r, env') \<Longrightarrow> r = napi_ok () \<or> (\<exists>e. r = failure e)"
  by (auto simp: napi_throw_error_def preamble_def host_def split: list.splits option.splits)

lemma IsConstructCall_never_true:
  assumes "cb_new_target info = None"
  shows "IsConstructCall info ifname env \<noteq> (napi_ok True, env')"
proof
  assume a: "IsConstructCall info ifname env = (napi_ok True, env')"
  obtain r1 e1 where 1: "napi_get_new_target info env = (r1, e1)"
    by (metis surj_pair)
  obtain r2 e2 where 2: "napi_throw_error None
      (''Non-construct calls to the `'' @ ifname @ ''` constructor are not supported.'') e1 = (r2, e2)"
    by (metis surj_pair)
  from napi_get_new_target_cases [OF 1] napi_throw_error_cases [OF 2] a assms 1 2
  show False
    by (auto simp: IsConstructCall_def STATUS_CALL_def)
qed

text \<open>
  Claim C8. When the new-target is absent, \<^verbatim>\<open>IsConstructCall\<close> never returns
  \<^verbatim>\<open>napi_ok\<close> with \<open>true\<close> in its result, whatever the host does, so a caller that
  goes on only then does not go on to \<^verbatim>\<open>Wrapping<T>::Create\<close>; and when the host reports
  no failure and no exception is pending, it returns \<^verbatim>\<open>napi_ok\<close> with \<open>false\<close> and
  leaves pending an exception whose message names the interface. When the new-target is
  present and the host reports no failure, it returns \<open>true\<close> and leaves the environment
  as it was, so nothing has been thrown.
\<close>

theorem IsConstructCall_guard:
  "(cb_new_target info = None \<longrightarrow>
      (\<forall>env'. IsConstructCall info ifname env \<noteq> (napi_ok True, env')) \<and>
      (faults env = [] \<and> exception env = None \<longrightarrow>
         IsConstructCall info ifname env =
           (napi_ok False,
            env\<lparr>exception := Some (''Non-construct calls to the `'' @ ifname @
                                     ''` constructor are not supported.'')\<rparr>))) \<and>
   (cb_new_target info \<noteq> None \<and> faults env = [] \<longrightarrow>
      IsConstructCall info ifname env = (napi_ok True, env))"
  using IsConstructCall_never_true [of info ifname env]
  by (auto simp: IsConstructCall_def STATUS_CALL_def napi_get_new_target_def napi_throw_error_def
      preamble_def host_no_fault)

theorem IsConstructCall_guard_witness:
  "IsConstructCall plain_call ''Foo'' env0 =
     (napi_ok False,
      env0\<lparr>exception := Some ''Non-construct calls to the `Foo` constructor are not supported.''\<rparr>) \<and>
   IsConstructCall construct_call ''Foo'' env0 = (napi_ok True, env0)"
proof -
  have "cb_new_target plain_call = None" "cb_new_target construct_call \<noteq> None"
    "faults env0 = []" "exception env0 = None"
    by (simp_all add: plain_call_def construct_call_def env0_def)
  then show ?thesis
    using IsConstructCall_guard [of plain_call "''Foo''" env0]
      IsConstructCall_guard [of construct_call "''Foo''" env0]
    by simp
qed

section \<open>Retrieving without a cached value\<close>

text \<open>
  Claim C10. Let the host's \<^verbatim>\<open>napi_unwrap\<close> succeed on the receiver and hand out a
  wrapping record. When the slot index is negative, or not below the number of slots, or
  names an empty slot, \<^verbatim>\<open>Retrieve\<close> returns \<^verbatim>\<open>napi_ok\<close>, leaves \<^verbatim>\<open>*ref\<close> as it was,
  stores the pointer to the native object in \<^verbatim>\<open>*cc_rcv\<close> (and the record in
  \<^verbatim>\<open>*get_wrapping\<close>, when asked), and leaves the state as that one call left it: it
  has made no other call, so whatever the host would have reported on a second call is
  still to come.
\<close>

theorem Retrieve_without_cached_value:
  assumes "napi_unwrap js_rcv s = (napi_ok data, s1)" and "wrappings s1 data = Some w"
    and "ref_idx < 0 \<or> length (refs w) \<le> nat ref_idx \<or> refs w ! nat ref_idx = None"
  shows "Retrieve js_rcv ref_idx ref get_wrapping s =
           (napi_ok (native w, ref, if get_wrapping \<noteq> None then Some (Some data) else get_wrapping),
            s1)"
proof -
  have "\<not> (0 \<le> ref_idx \<and> nat ref_idx < length (refs w) \<and> refs w ! nat ref_idx \<noteq> None)"
    using assms(3) by auto
  with assms(1,2) show ?thesis
    unfolding Retrieve_def STATUS_CALL_def
    by (simp only: if_False prod.case result.case option.case)
qed

text \<open>At an index past the two slots, with a host that would fail a second call; at a
  negative index; and at an empty slot.\<close>

theorem Retrieve_without_cached_value_witness:
  "Retrieve (Some (JSObject 10)) 7 (Some None) None
       (world0\<lparr>faults := [None, Some napi_generic_failure]\<rparr>) =
     (napi_ok (Some 2, Some None, None), world0\<lparr>faults := [Some napi_generic_failure]\<rparr>) \<and>
   Retrieve (Some (JSObject 10)) (- 1) (Some None) (Some None) world0 =
     (napi_ok (Some 2, Some None, Some (Some 1)), world0) \<and>
   Retrieve (Some (JSObject 10)) 0 (Some None) (Some None) world0 =
     (napi_ok (Some 2, Some None, Some (Some 1)), world0)"
proof -
  let ?s = "world0\<lparr>faults := [None, Some napi_generic_failure]\<rparr>"
  let ?s1 = "world0\<lparr>faults := [Some napi_generic_failure]\<rparr>"
  let ?w = "\<lparr>native = Some 2, refs = [None, None]\<rparr>"
  have 1: "napi_unwrap (Some (JSObject 10)) ?s = (napi_ok 1, ?s1)" "wrappings ?s1 1 = Some ?w"
    by (simp_all add: napi_unwrap_def preamble_def host_def world0_def)
  have 2: "napi_unwrap (Some (JSObject 10)) world0 = (napi_ok 1, world0)"
    "wrappings world0 1 = Some ?w"
    by (simp_all add: napi_unwrap_def preamble_def host_def world0_def)
  have a: "(7::int) < 0 \<or> length (refs ?w) \<le> nat 7 \<or> refs ?w ! nat 7 = None"
    and b: "(- 1::int) < 0 \<or> length (refs ?w) \<le> nat (- 1) \<or> refs ?w ! nat (- 1) = None"
    and c: "(0::int) < 0 \<or> length (refs ?w) \<le> nat 0 \<or> refs ?w ! nat 0 = None"
    by simp_all
  show ?thesis
    using Retrieve_without_cached_value [OF 1 a, of "Some None" None]
      Retrieve_without_cached_value [OF 2 b, of "Some None" "Some None"]
      Retrieve_without_cached_value [OF 2 c, of "Some None" "Some None"]
    by simp
qed
section \<open>Destroying a wrapping record\<close>

lemma napi_delete_reference_ok:
  "faults s = [] \<Longrightarrow> references s r = Some x \<Longrightarrow>
   napi_delete_reference (Some r) s = (napi_ok (), s\<lparr>references := (references s)(r := None)\<rparr>)"
  by (simp add: napi_delete_reference_def host_no_fault)

lemma napi_delete_reference_cases:
  assumes "napi_delete_reference ref s = (res, s1)"
  shows "natives s1 = natives s \<and> wrappings s1 = wrappings s \<and> freed s1 = freed s \<and>
         (\<forall>r. references s r = None \<longrightarrow> references s1 r = None) \<and>
         ((res = napi_ok () \<and> (\<exists>r. ref = Some r \<and> references s1 r = None)) \<or> (\<exists>e. res = failure e))"
  using assms
  by (auto simp: napi_delete_reference_def host_def split: list.splits option.splits)

lemma throw_last_error_native [simp]:
  "natives (throw_last_error e s) = natives s"
  "wrappings (throw_last_error e s) = wrappings s"
  "freed (throw_last_error e s) = freed s"
  by (simp_all add: throw_last_error_def split: option.splits)

lemma Destroy_refs_ok:
  assumes "faults s = []" and "\<forall>r. Some r \<in> set rs \<longrightarrow> references s r \<noteq> None"
    and "distinct (filter (\<lambda>r. r \<noteq> None) rs)"
  shows "Destroy_refs rs rest s =
           rest (s\<lparr>references := (\<lambda>r. if Some r \<in> set rs then None else references s r)\<rparr>)"
  using assms
proof (induction rs arbitrary: s)
  case Nil
  then show ?case by simp
next
  case (Cons ref rs)
  show ?case
  proof (cases ref)
    case None
    with Cons.prems have "Destroy_refs (ref # rs) rest s =
        rest (s\<lparr>references := (\<lambda>r. if Some r \<in> set rs then None else references s r)\<rparr>)"
      by (simp add: Cons.IH)
    with None show ?thesis by simp
  next
    case (Some r)
    let ?s1 = "s\<lparr>references := (references s)(r := None)\<rparr>"
    from Cons.prems Some obtain x where x: "references s r = Some x" by auto
    from Cons.prems Some have fresh: "Some r \<notin> set rs"
      and rest_distinct: "distinct (filter (\<lambda>r. r \<noteq> None) rs)" by simp_all
    have "Destroy_refs (ref # rs) rest s = Destroy_refs rs rest ?s1"
      using Some napi_delete_reference_ok [OF Cons.prems(1) x]
      by (simp add: NAPI_CALL_RETURN_VOID_def NAPI_CALL_BASE_def)
    also have "\<dots> = rest (?s1\<lparr>references :=
        (\<lambda>r'. if Some r' \<in> set rs then None else references ?s1 r')\<rparr>)"
      using Cons.prems(1,2) fresh rest_distinct by (intro Cons.IH) auto
    also have "(\<lambda>r'. if Some r' \<in> set rs then None else references ?s1 r') =
               (\<lambda>r'. if Some r' \<in> set (ref # rs) then None else references s r')"
      using Some by auto
    finally show ?thesis by simp
  qed
qed

lemma Destroy_refs_cases:
  "\<exists>s'. natives s' = natives s \<and> wrappings s' = wrappings s \<and> freed s' = freed s \<and>
        (\<forall>r. references s r = None \<longrightarrow> references s' r = None) \<and>
        ((Destroy_refs rs rest s = rest s' \<and> (\<forall>r. Some r \<in> set rs \<longrightarrow> references s' r = None)) \<or>
         Destroy_refs rs rest s = (napi_ok (), s'))"
proof (induction rs arbitrary: s)
  case Nil
  show ?case by (rule exI [of _ s]) simp
next
  case (Cons ref rs)
  show ?case
  proof (cases ref)
    case None
    with Cons.IH [of s] show ?thesis by auto
  next
    case (Some r)
    obtain res s1 where d: "napi_delete_reference (Some r) s = (res, s1)"
      by (metis surj_pair)
    note c = napi_delete_reference_cases [OF d]
    from c consider (ok) "res = napi_ok ()" "references s1 r = None" | (fail) e where "res = failure e"
      by auto
    then show ?thesis
    proof cases
      case ok
      from Cons.IH [of s1] obtain s' where s':
        "natives s' = natives s1" "wrappings s' = wrappings s1" "freed s' = freed s1"
        "\<forall>r. references s1 r = None \<longrightarrow> references s' r = None"
        "(Destroy_refs rs rest s1 = rest s' \<and> (\<forall>r. Some r \<in> set rs \<longrightarrow> references s' r = None)) \<or>
         Destroy_refs rs rest s1 = (napi_ok (), s')"
        by blast
      have step: "Destroy_refs (ref # rs) rest s = Destroy_refs rs rest s1"
        using Some d ok by (simp add: NAPI_CALL_RETURN_VOID_def NAPI_CALL_BASE_def)
      show ?thesis
        using s' c ok Some unfolding step by (intro exI [of _ s']) auto
    next
      case fail
      have "Destroy_refs (ref # rs) rest s = (napi_ok (), throw_last_error e s1)"
        using Some d fail by (simp add: NAPI_CALL_RETURN_VOID_def NAPI_CALL_BASE_def)
      moreover have "\<forall>r. references s r = None \<longrightarrow> references (throw_last_error e s1) r = None"
        using c by (simp add: throw_last_error_def split: option.splits)
      ultimately show ?thesis
        using c by (intro exI [of _ "throw_last_error e s1"]) simp
    qed
  qed
qed


lemma host_native:
  assumes "\<And>t r t'. op t = (r, t') \<Longrightarrow> natives t' = natives t \<and> freed t' = freed t"
    and "host op s = (r, s')"
  shows "natives s' = natives s \<and> freed s' = freed s"
  using assms(2) assms(1) [of "s\<lparr>faults := tl (faults s)\<rparr>" r s'] assms(1) [of s r s']
  by (auto simp: host_def split: list.splits option.splits)

lemma preamble_native:
  assumes "\<And>t r t'. op t = (r, t') \<Longrightarrow> natives t' = natives t \<and> freed t' = freed t"
    and "preamble op s = (r, s')"
  shows "natives s' = natives s \<and> freed s' = freed s"
  using assms(2) unfolding preamble_def
  by (rule host_native [rotated]) (auto split: option.splits dest: assms(1))

lemma napi_unwrap_native:
  "napi_unwrap v s = (r, s') \<Longrightarrow> natives s' = natives s \<and> freed s' = freed s"
  unfolding napi_unwrap_def
  by (erule preamble_native [rotated]) (auto split: option.splits js_value.splits)

lemma napi_wrap_native:
  "napi_wrap v p s = (r, s') \<Longrightarrow> natives s' = natives s \<and> freed s' = freed s"
  unfolding napi_wrap_def
  by (erule preamble_native [rotated]) (auto split: option.splits js_value.splits)

lemma napi_get_reference_value_native:
  "napi_get_reference_value ref s = (r, s') \<Longrightarrow> natives s' = natives s \<and> freed s' = freed s"
  unfolding napi_get_reference_value_def
  by (erule host_native [rotated]) (auto split: option.splits)

lemma napi_create_reference_native:
  "napi_create_reference v n s = (r, s') \<Longrightarrow> natives s' = natives s \<and> freed s' = freed s"
  unfolding napi_create_reference_def
  by (erule host_native [rotated]) (auto split: option.splits if_splits)

lemma Create_native:
  "Create js_rcv cc_rcv n s = (r, s') \<Longrightarrow> natives s' = natives s \<and> freed s' = freed s"
  by (auto simp: Create_def Let_def dest!: napi_wrap_native)

lemma SetRef_native:
  "SetRef this idx v s = (r, s') \<Longrightarrow> natives s' = natives s \<and> freed s' = freed s"
  by (auto simp: SetRef_def STATUS_CALL_def dest!: napi_create_reference_native
      split: prod.splits result.splits option.splits if_splits)

lemma Retrieve_native:
  "Retrieve js_rcv ref_idx ref gw s = (r, s') \<Longrightarrow> natives s' = natives s \<and> freed s' = freed s"
  by (auto simp: Retrieve_def STATUS_CALL_def
      dest!: napi_unwrap_native napi_get_reference_value_native
      split: prod.splits result.splits option.splits if_splits)

text \<open>
  Claim C6. Let the record at \<open>data\<close> own the native object at \<open>p\<close>. Whatever the host
  does, \<^verbatim>\<open>Destroy\<close> returns without leaving the language, so it deletes nothing twice.
  If the native object is gone afterwards, then no reference of a slot is live any more,
  the record is gone too, and the one deletion of \<open>p\<close> has been added to those made
  before; if it is still there, because a release failed, nothing has been deleted. When
  the host reports no failure and the slots hold live references, no two the same, the
  state afterwards is the one before less those references, the native object and the
  record. \<^verbatim>\<open>Create\<close>, \<^verbatim>\<open>Retrieve\<close> and \<^verbatim>\<open>SetRef\<close> delete no native object.
\<close>

theorem Destroy_releases_then_deletes:
  assumes "wrappings (s :: ('t, 'p) world) data = Some w" and "native w = Some p"
    and "natives s p = Some obj"
  shows "(\<exists>s'. Destroy data s = (napi_ok (), s') \<and>
            (natives s' p = None \<longrightarrow>
               (\<forall>r. Some r \<in> set (refs w) \<longrightarrow> references s' r = None) \<and>
               wrappings s' data = None \<and> freed s' = p # freed s) \<and>
            (natives s' p \<noteq> None \<longrightarrow>
               natives s' = natives s \<and> wrappings s' = wrappings s \<and> freed s' = freed s) \<and>
            (faults s = [] \<and> (\<forall>r. Some r \<in> set (refs w) \<longrightarrow> references s r \<noteq> None) \<and>
             distinct (filter (\<lambda>r. r \<noteq> None) (refs w)) \<longrightarrow>
               s' = s\<lparr>references := (\<lambda>r. if Some r \<in> set (refs w) then None else references s r),
                      natives := (natives s)(p := None),
                      wrappings := (wrappings s)(data := None),
                      freed := p # freed s\<rparr>)) \<and>
         (\<forall>js_rcv cc_rcv n r t. Create js_rcv cc_rcv n s = (r, t) \<longrightarrow>
            natives t = natives s \<and> freed t = freed s) \<and>
         (\<forall>js_rcv ref_idx ref gw r t. Retrieve js_rcv ref_idx ref gw s = (r, t) \<longrightarrow>
            natives t = natives s \<and> freed t = freed s) \<and>
         (\<forall>this idx v r t. SetRef this idx v s = (r, t) \<longrightarrow>
            natives t = natives s \<and> freed t = freed s)"
proof -
  let ?rest = "STATUS_CALL (delete_native (native w)) (\<lambda>u. delete_wrapping data)"
  have D: "Destroy data s = Destroy_refs (refs w) ?rest s"
    using assms(1) by (simp add: Destroy_def)
  have rest: "?rest t = (napi_ok (), t\<lparr>natives := (natives t)(p := None), freed := p # freed t,
                                         wrappings := (wrappings t)(data := None)\<rparr>)"
    if "natives t = natives s" "wrappings t = wrappings s" for t :: "('t, 'p) world"
    using that assms
    by (simp add: STATUS_CALL_def delete_native_def delete_wrapping_def)
  from Destroy_refs_cases [of s "refs w" ?rest] obtain s1 where s1:
    "natives s1 = natives s" "wrappings s1 = wrappings s" "freed s1 = freed s"
    "(Destroy_refs (refs w) ?rest s = ?rest s1 \<and>
        (\<forall>r. Some r \<in> set (refs w) \<longrightarrow> references s1 r = None)) \<or>
     Destroy_refs (refs w) ?rest s = (napi_ok (), s1)"
    by blast
  let ?del = "\<lambda>t :: ('t, 'p) world. t\<lparr>natives := (natives t)(p := None), freed := p # freed t,
                     wrappings := (wrappings t)(data := None)\<rparr>"
  have full: "Destroy data s = (napi_ok (), ?del
                (s\<lparr>references := (\<lambda>r. if Some r \<in> set (refs w) then None else references s r)\<rparr>))"
    if "faults s = []" "\<forall>r. Some r \<in> set (refs w) \<longrightarrow> references s r \<noteq> None"
      "distinct (filter (\<lambda>r. r \<noteq> None) (refs w))"
    unfolding D Destroy_refs_ok [OF that] by (rule rest) simp_all
  from s1(4) have "\<exists>s'. Destroy data s = (napi_ok (), s') \<and>
            (natives s' p = None \<longrightarrow>
               (\<forall>r. Some r \<in> set (refs w) \<longrightarrow> references s' r = None) \<and>
               wrappings s' data = None \<and> freed s' = p # freed s) \<and>
            (natives s' p \<noteq> None \<longrightarrow>
               natives s' = natives s \<and> wrappings s' = wrappings s \<and> freed s' = freed s)"
  proof
    assume a: "Destroy_refs (refs w) ?rest s = ?rest s1 \<and>
        (\<forall>r. Some r \<in> set (refs w) \<longrightarrow> references s1 r = None)"
    then have "Destroy data s = (napi_ok (), ?del s1)"
      using rest [OF s1(1,2)] D by simp
    then show ?thesis
      using a s1 by (intro exI [of _ "?del s1"]) simp
  next
    assume "Destroy_refs (refs w) ?rest s = (napi_ok (), s1)"
    then show ?thesis
      using D s1 assms(3) by (intro exI [of _ s1]) simp
  qed
  then obtain s' where s': "Destroy data s = (napi_ok (), s')"
    "natives s' p = None \<longrightarrow>
               (\<forall>r. Some r \<in> set (refs w) \<longrightarrow> references s' r = None) \<and>
               wrappings s' data = None \<and> freed s' = p # freed s"
    "natives s' p \<noteq> None \<longrightarrow>
               natives s' = natives s \<and> wrappings s' = wrappings s \<and> freed s' = freed s"
    by (elim exE conjE)
  have fourth: "faults s = [] \<and> (\<forall>r. Some r \<in> set (refs w) \<longrightarrow> references s r \<noteq> None) \<and>
             distinct (filter (\<lambda>r. r \<noteq> None) (refs w)) \<longrightarrow>
               s' = s\<lparr>references := (\<lambda>r. if Some r \<in> set (refs w) then None else references s r),
                      natives := (natives s)(p := None),
                      wrappings := (wrappings s)(data := None),
                      freed := p # freed s\<rparr>"
  proof (intro impI, elim conjE)
    assume h: "faults s = []" "\<forall>r. Some r \<in> set (refs w) \<longrightarrow> references s r \<noteq> None"
      "distinct (filter (\<lambda>r. r \<noteq> None) (refs w))"
    from full [OF h] s'(1) show "s' = s\<lparr>references := (\<lambda>r. if Some r \<in> set (refs w) then None else references s r),
                      natives := (natives s)(p := None),
                      wrappings := (wrappings s)(data := None),
                      freed := p # freed s\<rparr>"
      by simp
  qed
  have first: "\<exists>s'. Destroy data s = (napi_ok (), s') \<and>
            (natives s' p = None \<longrightarrow>
               (\<forall>r. Some r \<in> set (refs w) \<longrightarrow> references s' r = None) \<and>
               wrappings s' data = None \<and> freed s' = p # freed s) \<and>
            (natives s' p \<noteq> None \<longrightarrow>
               natives s' = natives s \<and> wrappings s' = wrappings s \<and> freed s' = freed s) \<and>
            (faults s = [] \<and> (\<forall>r. Some r \<in> set (refs w) \<longrightarrow> references s r \<noteq> None) \<and>
             distinct (filter (\<lambda>r. r \<noteq> None) (refs w)) \<longrightarrow>
               s' = s\<lparr>references := (\<lambda>r. if Some r \<in> set (refs w) then None else references s r),
                      natives := (natives s)(p := None),
                      wrappings := (wrappings s)(data := None),
                      freed := p # freed s\<rparr>)"
    using s' fourth by (intro exI [of _ s'] conjI)
  have c: "\<forall>js_rcv cc_rcv n r t. Create js_rcv cc_rcv n s = (r, t) \<longrightarrow>
            natives t = natives s \<and> freed t = freed s"
    using Create_native by blast
  have r: "\<forall>js_rcv ref_idx ref gw r t. Retrieve js_rcv ref_idx ref gw s = (r, t) \<longrightarrow>
            natives t = natives s \<and> freed t = freed s"
    using Retrieve_native by blast
  have sr: "\<forall>this idx v r t. SetRef this idx v s = (r, t) \<longrightarrow>
            natives t = natives s \<and> freed t = freed s"
    using SetRef_native by blast
  from first c r sr show ?thesis
    by (intro conjI)
qed


theorem Destroy_releases_then_deletes_witness:
  "Destroy 1 world1 =
     (napi_ok (),
      world1\<lparr>references := (\<lambda>r. if Some r \<in> set [Some 30, None] then None else references world1 r),
             natives := (natives world1)(2 := None),
             wrappings := (wrappings world1)(1 := None),
             freed := 2 # freed world1\<rparr>)"
proof -
  let ?w = "\<lparr>native = Some 2, refs = [Some 30, None]\<rparr>"
  have a: "wrappings world1 1 = Some ?w" "native ?w = Some 2"
    "natives world1 2 = Some \<lparr>child = Some (JSObject 20), counter = 0\<rparr>"
    by (simp_all add: world1_def world0_def)
  have h: "faults world1 = [] \<and> (\<forall>r. Some r \<in> set (refs ?w) \<longrightarrow> references world1 r \<noteq> None) \<and>
           distinct (filter (\<lambda>r. r \<noteq> None) (refs ?w))"
    by (simp add: world1_def world0_def)
  from Destroy_releases_then_deletes [OF a] h show ?thesis
    by auto
qed

section \<open>The same-object cache of an accessor\<close>

lemma napi_get_cb_info_ok:
  "faults s = [] \<Longrightarrow> napi_get_cb_info info s = (napi_ok info, s)"
  by (simp add: napi_get_cb_info_def host_no_fault)

lemma napi_unwrap_ok:
  "faults s = [] \<Longrightarrow> exception s = None \<Longrightarrow> wraps s a = Some data \<Longrightarrow>
   napi_unwrap (Some (JSObject a)) s = (napi_ok data, s)"
  by (simp add: napi_unwrap_def preamble_ok)

lemma Retrieve_empty_slot:
  assumes "faults s = []" and "exception s = None"
    and "wraps s a = Some data" and "wrappings s data = Some w"
    and "refs w ! nat idx = None"
  shows "Retrieve (Some (JSObject a)) idx (Some None) (Some None) s =
           (napi_ok (native w, Some None, Some (Some data)), s)"
  using assms by (simp add: Retrieve_def STATUS_CALL_def napi_unwrap_ok)


lemma SetRef_ok:
  assumes "faults s = []" and "referable v" and "wrappings s this = Some w"
    and "0 \<le> idx" and "nat idx < length (refs w)"
  shows "SetRef this idx (Some v) s =
           (napi_ok (),
            s\<lparr>references := (references s)(next_id s \<mapsto> v), next_id := next_id s + 1,
              wrappings := (wrappings s)(this \<mapsto> w\<lparr>refs := (refs w)[nat idx := Some (next_id s)]\<rparr>)\<rparr>)"
  using assms
  by (simp add: SetRef_def STATUS_CALL_def napi_create_reference_def host_no_fault)

lemma InstanceGetter_first_read:
  fixes s :: "('t, 'p) world"
  assumes "faults s = []" and "exception s = None"
    and "cb_this info = Some (JSObject a)" and "wraps s a = Some data"
    and "wrappings s data = Some w" and "native w = Some p" and "natives s p = Some obj"
    and "0 \<le> sameIdx" and "nat sameIdx < length (refs w)" and "refs w ! nat sameIdx = None"
    and "ToJS conv (FieldName obj) s = (napi_ok (Some v), s1)" and "referable v"
    and "faults s1 = []" and "wrappings s1 = wrappings s"
  shows "InstanceGetter conv FieldName sameIdx info s =
           (napi_ok (Some v),
            s1\<lparr>references := (references s1)(next_id s1 \<mapsto> v), next_id := next_id s1 + 1,
               wrappings := (wrappings s)(data \<mapsto>
                  w\<lparr>refs := (refs w)[nat sameIdx := Some (next_id s1)]\<rparr>)\<rparr>)"
proof -
  have 1: "napi_get_cb_info info s = (napi_ok info, s)"
    using assms(1) by (rule napi_get_cb_info_ok)
  have 2: "Retrieve (cb_this info) sameIdx (Some None) (Some None) s =
             (napi_ok (Some p, Some None, Some (Some data)), s)"
    using Retrieve_empty_slot [OF assms(1,2,4,5,10)] assms(3,6) by simp
  have 3: "read_native (Some p) s = Some obj"
    using assms(7) by (simp add: read_native_def)
  have 4: "SetRef data sameIdx (Some v) s1 =
      (napi_ok (),
       s1\<lparr>references := (references s1)(next_id s1 \<mapsto> v), next_id := next_id s1 + 1,
          wrappings := (wrappings s1)(data \<mapsto> w\<lparr>refs := (refs w)[nat sameIdx := Some (next_id s1)]\<rparr>)\<rparr>)"
    using assms by (intro SetRef_ok) simp_all
  show ?thesis
    using assms(8)
    by (simp add: InstanceGetter_def NAPI_CALL_def NAPI_CALL_BASE_def 1 2 3 4 assms(11,14))
qed




text \<open>
  With the codec of opaque objects the conversion is the member itself, so the first reads
  on two instances with records of their own return the two members: they are identical
  exactly when the members are the same handle.
\<close>

lemma object_getter_two_instances:
  fixes s :: "('t, 'p) world"
  assumes "faults s = []" and "exception s = None" and "0 \<le> sameIdx" and "data \<noteq> data'"
    and "cb_this info = Some (JSObject a)" and "wraps s a = Some data"
    and "wrappings s data = Some w" and "native w = Some p" and "natives s p = Some obj"
    and "nat sameIdx < length (refs w)" and "refs w ! nat sameIdx = None"
    and "FieldName obj = Some v" and "referable v"
    and "cb_this info' = Some (JSObject b)" and "wraps s b = Some data'"
    and "wrappings s data' = Some w'" and "native w' = Some p'" and "natives s p' = Some obj'"
    and "nat sameIdx < length (refs w')" and "refs w' ! nat sameIdx = None"
    and "FieldName obj' = Some v'" and "referable v'"
  shows "\<exists>s2 s3.
           InstanceGetter Converter_object FieldName sameIdx info s = (napi_ok (Some v), s2) \<and>
           InstanceGetter Converter_object FieldName sameIdx info' s2 = (napi_ok (Some v'), s3)"
proof -
  let ?s2 = "s\<lparr>references := (references s)(next_id s \<mapsto> v), next_id := next_id s + 1,
               wrappings := (wrappings s)(data \<mapsto>
                  w\<lparr>refs := (refs w)[nat sameIdx := Some (next_id s)]\<rparr>)\<rparr>"
  have conv: "ToJS Converter_object (FieldName obj) s = (napi_ok (Some v), s)"
    "ToJS Converter_object (FieldName obj') ?s2 = (napi_ok (Some v'), ?s2)"
    using assms(12,21) by (simp_all add: Converter_object_def Converter_object_ToJS_def)
  have 1: "InstanceGetter Converter_object FieldName sameIdx info s = (napi_ok (Some v), ?s2)"
    using InstanceGetter_first_read [where conv = Converter_object and FieldName = FieldName,
        OF assms(1,2,5,6,7,8,9,3,10,11) conv(1) assms(13,1)]
    by simp
  have pre: "faults ?s2 = []" "exception ?s2 = None" "wraps ?s2 b = Some data'"
    "wrappings ?s2 data' = Some w'"
    "natives ?s2 p' = Some obj'" "wrappings ?s2 = wrappings ?s2"
    using assms(1,2,4,15,16,18) by simp_all
  have 2: "\<exists>s3. InstanceGetter Converter_object FieldName sameIdx info' ?s2 = (napi_ok (Some v'), s3)"
    using InstanceGetter_first_read [where conv = Converter_object and FieldName = FieldName,
        OF pre(1,2) assms(14) pre(3,4) assms(17) pre(5) assms(3,19,20) conv(2) assms(22) pre(1,6)]
    by blast
  from 1 2 show ?thesis by blast
qed
section \<open>The accessors of a plain exposed partial property\<close>

text \<open>
  Claim C7 has the getter convert the backing value of the property record and the
  setter store into it. The record is the one the host hands over as \<^verbatim>\<open>raw_data\<close>, but
  neither accessor looks at it: which record is handed over makes no difference to what
  they do. In the state \<open>world0\<close>, where the record at 5 holds 7, a read with that record
  handed over, while the uninitialised pointer happens to hold 9, leaves the language
  instead of returning 7; and a write of 3 does not reach the record.
\<close>

theorem ExposedPartialProperty_ignores_its_record:
  "ExposedPartialProperty_Getter conv indeterminate (info\<lparr>cb_data := given\<rparr>) s =
     ExposedPartialProperty_Getter conv indeterminate (info\<lparr>cb_data := other\<rparr>) s \<and>
   ExposedPartialProperty_Setter conv indeterminate (info\<lparr>cb_data := given\<rparr>) s =
     ExposedPartialProperty_Setter conv indeterminate (info\<lparr>cb_data := other\<rparr>) s \<and>
   properties world0 5 = Some 7 \<and>
   ExposedPartialProperty_Getter Converter_uint32 (Some 9) (property_call 5) world0 =
     (undefined_behaviour, world0) \<and>
   ExposedPartialProperty_Setter Converter_uint32 (Some 9) (property_call 5) world0 =
     (undefined_behaviour, world0)"
  by (simp add: ExposedPartialProperty_Getter_def ExposedPartialProperty_Setter_def
      NAPI_CALL_def NAPI_CALL_BASE_def napi_get_cb_info_def host_def world0_def
      property_call_def split: list.splits option.splits)


end
